theory Spec2Isabelle
  imports Main
begin

section \<open>JavaScript strings\<close>

text \<open>
  A JavaScript string is a sequence of UTF-16 code units. The model keeps them as natural
  numbers, so that the arrow of the \<open>synth.lock\<close> rule (U+2192) and the line separators
  U+2028 and U+2029 are single characters, as they are for the regular expressions of the
  source. \<open>js\<close> turns an ASCII literal into its code units.
\<close>

type_synonym jsstring = "nat list"

definition js :: "string \<Rightarrow> jsstring" where
  "js s = map of_char s"

fun starts_with :: "jsstring \<Rightarrow> jsstring \<Rightarrow> bool" where
  "starts_with [] ys = True"
| "starts_with (x # xs) [] = False"
| "starts_with (x # xs) (y # ys) = (x = y \<and> starts_with xs ys)"

text \<open>\<open>String.prototype.indexOf\<close>: the position of the first occurrence, \<open>None\<close> for -1.\<close>

fun string_index_of :: "jsstring \<Rightarrow> jsstring \<Rightarrow> nat option" where
  "string_index_of [] pat = (if pat = [] then Some 0 else None)"
| "string_index_of (c # cs) pat =
     (if starts_with pat (c # cs) then Some 0 else map_option Suc (string_index_of cs pat))"

text \<open>\<open>String.prototype.includes\<close>.\<close>

definition string_includes :: "jsstring \<Rightarrow> jsstring \<Rightarrow> bool" where
  "string_includes s pat = (string_index_of s pat \<noteq> None)"

text \<open>
  \<open>GetSubstitution\<close> of ECMAScript for a string pattern (no captures): in the replacement
  text \<open>$$\<close> stands for a dollar sign, \<open>$&\<close> for the matched text, \<open>$`\<close> for the text
  before the match and \<open>$'\<close> for the text after it; a dollar sign followed by anything
  else is copied.
\<close>

fun get_substitution :: "jsstring \<Rightarrow> jsstring \<Rightarrow> jsstring \<Rightarrow> jsstring \<Rightarrow> jsstring" where
  "get_substitution matched preceding following [] = []"
| "get_substitution matched preceding following [c] = [c]"
| "get_substitution matched preceding following (c # d # t) =
     (if c = 36 \<and> d = 36 then 36 # get_substitution matched preceding following t
      else if c = 36 \<and> d = 38 then matched @ get_substitution matched preceding following t
      else if c = 36 \<and> d = 96 then preceding @ get_substitution matched preceding following t
      else if c = 36 \<and> d = 39 then following @ get_substitution matched preceding following t
      else c # get_substitution matched preceding following (d # t))"

text \<open>
  \<open>String.prototype.replace\<close> with a string pattern and a string replacement: only the
  first occurrence is replaced, and the replacement goes through \<open>GetSubstitution\<close>.
\<close>

definition string_replace :: "jsstring \<Rightarrow> jsstring \<Rightarrow> jsstring \<Rightarrow> jsstring" where
  "string_replace s pat replacement =
     (case string_index_of s pat of
        None \<Rightarrow> s
      | Some i \<Rightarrow>
          take i s
          @ get_substitution pat (take i s) (drop (i + length pat) s) replacement
          @ drop (i + length pat) s)"

section \<open>Regular expressions\<close>

text \<open>
  The fragment of ECMAScript regular expressions that the rule table uses: literal
  characters, \<open>.\<close>, character classes (\<open>\d\<close>, \<open>\S\<close>, \<open>[a-z0-9-]\<close>, \<open>[\r\n]\<close>), sequence,
  alternation, the greedy quantifiers \<open>*\<close>, \<open>+\<close> and \<open>?\<close>, capturing groups with or
  without a name, \<open>$\<close> (without the multiline flag) and a negative lookbehind for a
  literal text. No rule uses the flags \<open>g\<close>, \<open>y\<close>, \<open>i\<close>, \<open>s\<close> or \<open>u\<close>; the flag \<open>m\<close> of the
  \<open>Failed to publish asset\<close> rule changes nothing, as that pattern has no anchor.
\<close>

datatype regex =
    Lit jsstring
  | Dot
  | Cls bool "(nat \<times> nat) list"
  | Seq regex regex
  | Alt regex regex
  | Star regex
  | Plus regex
  | Opt regex
  | Grp "string option" regex
  | Eoi
  | NotBehind jsstring

fun seqs :: "regex list \<Rightarrow> regex" where
  "seqs [] = Lit []"
| "seqs [r] = r"
| "seqs (r # rs) = Seq r (seqs rs)"

fun alts :: "regex list \<Rightarrow> regex" where
  "alts [] = Lit []"
| "alts [r] = r"
| "alts (r # rs) = Alt r (alts rs)"

abbreviation digit :: regex where
  "digit \<equiv> Cls False [(48, 57)]"

text \<open>\<open>\S\<close>: everything but the white space and line terminators of ECMAScript.\<close>

abbreviation non_space :: regex where
  "non_space \<equiv> Cls True [(9, 13), (32, 32), (160, 160), (5760, 5760), (8192, 8202),
     (8232, 8233), (8239, 8239), (8287, 8287), (12288, 12288), (65279, 65279)]"

abbreviation eol_class :: regex where
  "eol_class \<equiv> Cls False [(13, 13), (10, 10)]"

fun in_ranges :: "nat \<Rightarrow> (nat \<times> nat) list \<Rightarrow> bool" where
  "in_ranges c [] = False"
| "in_ranges c ((lo, hi) # rs) = ((lo \<le> c \<and> c \<le> hi) \<or> in_ranges c rs)"

text \<open>\<open>.\<close> matches every code unit but the four line terminators.\<close>

definition line_terminator :: "nat \<Rightarrow> bool" where
  "line_terminator c = (c = 10 \<or> c = 13 \<or> c = 8232 \<or> c = 8233)"

fun group_names :: "regex \<Rightarrow> string list" where
  "group_names (Seq a b) = group_names a @ group_names b"
| "group_names (Alt a b) = group_names a @ group_names b"
| "group_names (Star r) = group_names r"
| "group_names (Plus r) = group_names r"
| "group_names (Opt r) = group_names r"
| "group_names (Grp None r) = group_names r"
| "group_names (Grp (Some n) r) = n # group_names r"
| "group_names r = []"

fun group_count :: "regex \<Rightarrow> nat" where
  "group_count (Seq a b) = group_count a + group_count b"
| "group_count (Alt a b) = group_count a + group_count b"
| "group_count (Star r) = group_count r"
| "group_count (Plus r) = group_count r"
| "group_count (Opt r) = group_count r"
| "group_count (Grp n r) = Suc (group_count r)"
| "group_count r = 0"

text \<open>
  The backtracking matcher of ECMAScript, with the continuation of a pattern kept as a
  stack of frames. \<open>Close\<close> ends a group opened at a position; \<open>Iter\<close> and \<open>Progress\<close>
  are the empty check of \<open>RepeatMatcher\<close>: an iteration of \<open>*\<close> or \<open>?\<close> that consumed
  nothing is rejected. A capture is the pair of its start and end positions; the captures
  of the groups inside a quantified pattern are reset when an iteration starts.
\<close>

datatype frame = Run regex | Close "string option" nat | Iter regex nat | Progress nat

type_synonym captures = "(string \<times> nat \<times> nat) list"

fun clear :: "string list \<Rightarrow> captures \<Rightarrow> captures" where
  "clear [] caps = caps"
| "clear ns [] = []"
| "clear ns ((k, v) # caps) =
     (if k \<in> set ns then clear ns caps else (k, v) # clear ns caps)"

fun rsize :: "regex \<Rightarrow> nat" where
  "rsize (Seq a b) = rsize a + rsize b + 1"
| "rsize (Alt a b) = rsize a + rsize b + 1"
| "rsize (Star r) = rsize r + 2"
| "rsize (Plus r) = rsize r + rsize r + 4"
| "rsize (Opt r) = rsize r + 2"
| "rsize (Grp n r) = rsize r + 2"
| "rsize r = 1"

fun fweight :: "nat \<Rightarrow> frame \<Rightarrow> nat" where
  "fweight p (Run r) = rsize r"
| "fweight p (Close n s) = 1"
| "fweight p (Iter r n) = (if n < p then rsize r + 4 else 1)"
| "fweight p (Progress n) = 1"

lemma starts_with_length: "starts_with s rest \<Longrightarrow> length s \<le> length rest"
  by (induction s rest rule: starts_with.induct) auto

lemma starts_with_no_progress:
  "starts_with s rest \<Longrightarrow> \<not> length rest - length s < length rest \<Longrightarrow> s = []"
  by (drule starts_with_length) (cases s; cases rest; simp)

function (sequential) matcher ::
  "frame list \<Rightarrow> nat \<Rightarrow> jsstring \<Rightarrow> jsstring \<Rightarrow> captures \<Rightarrow> (nat \<times> captures) option" where
  "matcher [] pos pre rest caps = Some (pos, caps)"
| "matcher (Run (Lit s) # k) pos pre rest caps =
     (if starts_with s rest
      then matcher k (pos + length s) (rev s @ pre) (drop (length s) rest) caps
      else None)"
| "matcher (Run Dot # k) pos pre rest caps =
     (case rest of
        [] \<Rightarrow> None
      | c # cs \<Rightarrow> if line_terminator c then None else matcher k (pos + 1) (c # pre) cs caps)"
| "matcher (Run (Cls neg rs) # k) pos pre rest caps =
     (case rest of
        [] \<Rightarrow> None
      | c # cs \<Rightarrow> if in_ranges c rs = neg then None else matcher k (pos + 1) (c # pre) cs caps)"
| "matcher (Run (Seq a b) # k) pos pre rest caps = matcher (Run a # Run b # k) pos pre rest caps"
| "matcher (Run (Alt a b) # k) pos pre rest caps =
     (case matcher (Run a # k) pos pre rest caps of
        Some x \<Rightarrow> Some x
      | None \<Rightarrow> matcher (Run b # k) pos pre rest caps)"
| "matcher (Run (Star r) # k) pos pre rest caps =
     (case matcher (Run r # Iter r pos # k) pos pre rest (clear (group_names r) caps) of
        Some x \<Rightarrow> Some x
      | None \<Rightarrow> matcher k pos pre rest caps)"
| "matcher (Iter r n # k) pos pre rest caps =
     (if n < pos then matcher (Run (Star r) # k) pos pre rest caps else None)"
| "matcher (Run (Plus r) # k) pos pre rest caps =
     matcher (Run r # Run (Star r) # k) pos pre rest caps"
| "matcher (Run (Opt r) # k) pos pre rest caps =
     (case matcher (Run r # Progress pos # k) pos pre rest (clear (group_names r) caps) of
        Some x \<Rightarrow> Some x
      | None \<Rightarrow> matcher k pos pre rest caps)"
| "matcher (Progress n # k) pos pre rest caps =
     (if n < pos then matcher k pos pre rest caps else None)"
| "matcher (Run (Grp nm r) # k) pos pre rest caps =
     matcher (Run r # Close nm pos # k) pos pre rest caps"
| "matcher (Close nm n # k) pos pre rest caps =
     matcher k pos pre rest (case nm of None \<Rightarrow> caps | Some x \<Rightarrow> (x, n, pos) # caps)"
| "matcher (Run Eoi # k) pos pre rest caps =
     (if rest = [] then matcher k pos pre rest caps else None)"
| "matcher (Run (NotBehind s) # k) pos pre rest caps =
     (if starts_with (rev s) pre then None else matcher k pos pre rest caps)"
  by pat_completeness auto

termination matcher
  apply (relation "inv_image (less_than <*lex*> less_than)
     (\<lambda>(fs, pos, pre, rest, caps). (length rest, sum_list (map (fweight pos) fs)))")
  apply (auto dest: starts_with_no_progress)
  done

text \<open>
  The search for the leftmost match: the pattern is tried at every position from left to
  right; \<open>pre\<close> is the text before the position, reversed, for the lookbehind.
\<close>

fun search :: "regex \<Rightarrow> nat \<Rightarrow> jsstring \<Rightarrow> jsstring \<Rightarrow> (nat \<times> nat \<times> captures) option" where
  "search r pos pre [] =
     (case matcher [Run r] pos pre [] [] of
        Some (e, caps) \<Rightarrow> Some (pos, e, caps)
      | None \<Rightarrow> None)"
| "search r pos pre (c # cs) =
     (case matcher [Run r] pos pre (c # cs) [] of
        Some (e, caps) \<Rightarrow> Some (pos, e, caps)
      | None \<Rightarrow> search r (pos + 1) (c # pre) cs)"

definition regex_exec :: "regex \<Rightarrow> jsstring \<Rightarrow> (nat \<times> nat \<times> captures) option" where
  "regex_exec r s = search r 0 [] s"

text \<open>\<open>RegExp.prototype.test\<close>.\<close>

definition regex_test :: "regex \<Rightarrow> jsstring \<Rightarrow> bool" where
  "regex_test r s = (regex_exec r s \<noteq> None)"

text \<open>
  The array that \<open>String.prototype.match\<close> returns for a regular expression without the
  \<open>g\<close> flag, as far as the program reads it: element 0, the length (one more than the
  number of capturing groups) and the \<open>groups\<close> object, which is undefined when the
  pattern has no named group and otherwise has one entry per named group, in the order of
  the pattern, with an undefined value for a group that took no part in the match.
\<close>

record match_array =
  matched :: jsstring
  array_length :: nat
  groups :: "(string \<times> jsstring option) list option"

definition capture_text :: "jsstring \<Rightarrow> captures \<Rightarrow> string \<Rightarrow> jsstring option" where
  "capture_text s caps n =
     (case map_of caps n of
        None \<Rightarrow> None
      | Some (i, j) \<Rightarrow> Some (take (j - i) (drop i s)))"

definition string_match :: "jsstring \<Rightarrow> regex \<Rightarrow> match_array option" where
  "string_match s r =
     (case regex_exec r s of
        None \<Rightarrow> None
      | Some (i, j, caps) \<Rightarrow>
          Some \<lparr>matched = take (j - i) (drop i s),
                array_length = Suc (group_count r),
                groups = (if group_names r = [] then None
                          else Some (map (\<lambda>n. (n, capture_text s caps n)) (group_names r)))\<rparr>)"

text \<open>
  \<open>String.prototype.replace\<close> with a regular expression without the \<open>g\<close> flag and the
  empty replacement: the leftmost match is removed.
\<close>

definition remove_first_match :: "jsstring \<Rightarrow> regex \<Rightarrow> jsstring" where
  "remove_first_match s r =
     (case regex_exec r s of
        None \<Rightarrow> s
      | Some (i, j, caps) \<Rightarrow> take i s @ drop j s)"

section \<open>Errors as objects in a store\<close>

text \<open>
  The classifier returns objects, keeps the caller's error as the cause of the error it
  builds and in one branch assigns to the caller's error. Errors therefore live in a store:
  an address is an index into the list of all error objects, a new object is appended.

  An error object has the fields of a JavaScript \<open>Error\<close> (\<open>name\<close>, \<open>message\<close>, \<open>cause\<close>),
  the fields of an \<open>AmplifyError\<close> of \<open>@aws-amplify/platform-core\<close> when it is one, and the
  marks that the probes of \<open>ToolkitError\<close> of \<open>@aws-cdk/toolkit-lib\<close> look for.
\<close>

datatype AmplifyErrorClassification = ERROR | FAULT

type_synonym addr = nat

record js_error =
  name :: jsstring
  message :: jsstring
  cause :: "addr option"
  amplify_classification :: "AmplifyErrorClassification option"
  resolution :: "jsstring option"
  toolkit_error :: bool
  authentication_error :: bool
  assembly_error :: bool
  context_provider_error :: bool

type_synonym heap = "js_error list"

definition new :: "heap \<Rightarrow> js_error \<Rightarrow> addr \<times> heap" where
  "new h e = (length h, h @ [e])"

text \<open>
  Modelled from the spec: \<open>AmplifyError.isAmplifyError\<close> of \<open>@aws-amplify/platform-core\<close> is
  not among the sources. The spec has it as a capability check, not a check of the type
  name: the object carries the classification of a structured error.
\<close>

definition isAmplifyError :: "js_error \<Rightarrow> bool" where
  "isAmplifyError e = (amplify_classification e \<noteq> None)"

text \<open>
  Modelled from the spec: the constructors \<open>AmplifyUserError\<close> and \<open>AmplifyFault\<close> of
  \<open>@aws-amplify/platform-core\<close> are not among the sources. A structured error has a kind
  (its \<open>name\<close>), a severity, a message, an optional resolution and an optional cause;
  \<open>AmplifyUserError\<close> has the severity \<open>ERROR\<close> (the user's error) and \<open>AmplifyFault\<close> the
  severity \<open>FAULT\<close>.
\<close>

definition AmplifyUserError ::
  "jsstring \<Rightarrow> jsstring \<Rightarrow> jsstring option \<Rightarrow> addr option \<Rightarrow> js_error" where
  "AmplifyUserError nm msg res cs =
     \<lparr>name = nm, message = msg, cause = cs, amplify_classification = Some ERROR,
      resolution = res, toolkit_error = False, authentication_error = False,
      assembly_error = False, context_provider_error = False\<rparr>"

definition AmplifyFault ::
  "jsstring \<Rightarrow> jsstring \<Rightarrow> jsstring option \<Rightarrow> addr option \<Rightarrow> js_error" where
  "AmplifyFault nm msg res cs =
     \<lparr>name = nm, message = msg, cause = cs, amplify_classification = Some FAULT,
      resolution = res, toolkit_error = False, authentication_error = False,
      assembly_error = False, context_provider_error = False\<rparr>"

text \<open>
  Modelled from the spec: \<open>AmplifyError.fromError\<close> of \<open>@aws-amplify/platform-core\<close> is not
  among the sources. The spec has the fallback as a minimal passthrough structured error
  that wraps the raw message verbatim, with the kind \<open>unknown\<close> and the severity \<open>FAULT\<close>.
\<close>

definition fromError :: "heap \<Rightarrow> addr \<Rightarrow> addr \<times> heap" where
  "fromError h error = new h (AmplifyFault (js ''unknown'') (message (h ! error)) None None)"

text \<open>
  The probes of \<open>ToolkitError\<close> (\<open>@aws-cdk/toolkit-lib\<close>): each looks for the toolkit's own
  mark on the object and for the mark of one category.
\<close>

definition isToolkitError :: "js_error \<Rightarrow> bool" where
  "isToolkitError e = toolkit_error e"

definition isAuthenticationError :: "js_error \<Rightarrow> bool" where
  "isAuthenticationError e = (toolkit_error e \<and> authentication_error e)"

definition isAssemblyError :: "js_error \<Rightarrow> bool" where
  "isAssemblyError e = (toolkit_error e \<and> assembly_error e)"

definition isContextProviderError :: "js_error \<Rightarrow> bool" where
  "isContextProviderError e = (toolkit_error e \<and> context_provider_error e)"

text \<open>
  The collaborators whose code is not among the sources are parameters of the classifier:
  \<open>AmplifyError.fromStderr\<close> (it finds a serialized structured error in a text and
  rebuilds it), \<open>stripANSI\<close> of the package \<open>strip-ansi\<close>, and the formatter's
  \<open>normalizeAmpxCommand\<close>, given to the constructor of \<open>CdkErrorMapper\<close>.
\<close>

record collaborators =
  fromStderr :: "jsstring \<Rightarrow> js_error option"
  stripANSI :: "jsstring \<Rightarrow> jsstring"
  normalizeAmpxCommand :: "jsstring \<Rightarrow> jsstring"

text \<open>A call either returns a value or throws the error at an address.\<close>

datatype 'a completion = Return 'a | Throw addr

fun completion_error :: "addr completion \<Rightarrow> addr" where
  "completion_error (Return r) = r"
| "completion_error (Throw r) = r"

fun is_throw :: "'a completion \<Rightarrow> bool" where
  "is_throw (Return r) = False"
| "is_throw (Throw r) = True"

section \<open>The table of known errors\<close>

text \<open>
  The type \<open>CDKDeploymentError\<close>, a union of string literals; \<open>kind_name\<close> is the string of
  each.
\<close>

datatype CDKDeploymentError =
    AccessDeniedError
  | AuthenticationError
  | AppSyncResolverSyntaxError
  | BackendBuildError
  | BootstrapNotDetectedError
  | BootstrapDetectionError
  | BootstrapOutdatedError
  | CDKAssetPublishError
  | CDKAssetBundleError
  | CDKNotFoundError
  | CDKResolveAWSAccountError
  | CDKVersionMismatchError
  | CFNUpdateNotSupportedError
  | CloudformationResourceCircularDependencyError
  | CloudformationStackCircularDependencyError
  | CloudFormationDeletionError
  | CloudFormationDeploymentError
  | CommonNPMError
  | DeleteFailedWhileDeploymentInProgressError
  | FilePermissionsError
  | MissingDefineBackendError
  | MultipleSandboxInstancesError
  | ESBuildError
  | ExpiredTokenError
  | FileConventionError
  | FileNotFoundError
  | ModuleNotFoundError
  | InsufficientMemorySpaceError
  | InvalidOrCannotAssumeRoleError
  | InvalidPackageJsonError
  | SchemaError
  | SecretNotSetError
  | SyntaxError
  | GetLambdaLayerVersionError
  | LambdaEmptyZipFault
  | LambdaMaxSizeExceededError
  | RequestSignatureError

fun kind_name :: "CDKDeploymentError \<Rightarrow> jsstring" where
  "kind_name AccessDeniedError = js ''AccessDeniedError''"
| "kind_name AuthenticationError = js ''AuthenticationError''"
| "kind_name AppSyncResolverSyntaxError = js ''AppSyncResolverSyntaxError''"
| "kind_name BackendBuildError = js ''BackendBuildError''"
| "kind_name BootstrapNotDetectedError = js ''BootstrapNotDetectedError''"
| "kind_name BootstrapDetectionError = js ''BootstrapDetectionError''"
| "kind_name BootstrapOutdatedError = js ''BootstrapOutdatedError''"
| "kind_name CDKAssetPublishError = js ''CDKAssetPublishError''"
| "kind_name CDKAssetBundleError = js ''CDKAssetBundleError''"
| "kind_name CDKNotFoundError = js ''CDKNotFoundError''"
| "kind_name CDKResolveAWSAccountError = js ''CDKResolveAWSAccountError''"
| "kind_name CDKVersionMismatchError = js ''CDKVersionMismatchError''"
| "kind_name CFNUpdateNotSupportedError = js ''CFNUpdateNotSupportedError''"
| "kind_name CloudformationResourceCircularDependencyError = js ''CloudformationResourceCircularDependencyError''"
| "kind_name CloudformationStackCircularDependencyError = js ''CloudformationStackCircularDependencyError''"
| "kind_name CloudFormationDeletionError = js ''CloudFormationDeletionError''"
| "kind_name CloudFormationDeploymentError = js ''CloudFormationDeploymentError''"
| "kind_name CommonNPMError = js ''CommonNPMError''"
| "kind_name DeleteFailedWhileDeploymentInProgressError = js ''DeleteFailedWhileDeploymentInProgressError''"
| "kind_name FilePermissionsError = js ''FilePermissionsError''"
| "kind_name MissingDefineBackendError = js ''MissingDefineBackendError''"
| "kind_name MultipleSandboxInstancesError = js ''MultipleSandboxInstancesError''"
| "kind_name ESBuildError = js ''ESBuildError''"
| "kind_name ExpiredTokenError = js ''ExpiredTokenError''"
| "kind_name FileConventionError = js ''FileConventionError''"
| "kind_name FileNotFoundError = js ''FileNotFoundError''"
| "kind_name ModuleNotFoundError = js ''ModuleNotFoundError''"
| "kind_name InsufficientMemorySpaceError = js ''InsufficientMemorySpaceError''"
| "kind_name InvalidOrCannotAssumeRoleError = js ''InvalidOrCannotAssumeRoleError''"
| "kind_name InvalidPackageJsonError = js ''InvalidPackageJsonError''"
| "kind_name SchemaError = js ''SchemaError''"
| "kind_name SecretNotSetError = js ''SecretNotSetError''"
| "kind_name SyntaxError = js ''SyntaxError''"
| "kind_name GetLambdaLayerVersionError = js ''GetLambdaLayerVersionError''"
| "kind_name LambdaEmptyZipFault = js ''LambdaEmptyZipFault''"
| "kind_name LambdaMaxSizeExceededError = js ''LambdaMaxSizeExceededError''"
| "kind_name RequestSignatureError = js ''RequestSignatureError''"

record known_error =
  errorRegex :: regex
  humanReadableErrorMessage :: jsstring
  resolutionMessage :: jsstring
  errorName :: CDKDeploymentError
  classification :: AmplifyErrorClassification

abbreviation multiLineEolRegex :: regex where
  "multiLineEolRegex \<equiv> Star eol_class"

text \<open>
  \<open>getKnownErrors\<close> is an arrow function whose body is an array literal: every call builds
  a new array of new objects, in this order.
\<close>

definition getKnownErrors :: "collaborators \<Rightarrow> known_error list" where
  "getKnownErrors d = [
    \<comment> \<open>entry 0: ExpiredToken: .*|The security token included in the request is (expired|invalid)\<close>
    \<lparr>errorRegex = alts [seqs [Lit (js ''ExpiredToken: ''), Star Dot], seqs [Lit
        (js ''The security token included in the request is ''), Grp None (alts [Lit
        (js ''expired''), Lit (js ''invalid'')])]],
     humanReadableErrorMessage = js ''The security token included in the request is invalid.'',
     resolutionMessage = js ''Please update your AWS credentials. You can do this by running `aws configure` or by updating your AWS credentials file. If you're using temporary credentials, you may need to obtain new ones.'',
     errorName = ExpiredTokenError,
     classification = ERROR\<rparr>,
    \<comment> \<open>entry 1: The request signature we calculated does not match the signature you provided\<close>
    \<lparr>errorRegex = Lit (js ''The request signature we calculated does not match the signature you provided''),
     humanReadableErrorMessage = js ''The request signature we calculated does not match the signature you provided.'',
     resolutionMessage = js ''You can retry your last request, check if your system time is synchronized (clock skew) or ensure your AWS credentials are correctly set and refreshed.'',
     errorName = RequestSignatureError,
     classification = ERROR\<rparr>,
    \<comment> \<open>entry 2: Access Denied\<close>
    \<lparr>errorRegex = Lit (js ''Access Denied''),
     humanReadableErrorMessage = js ''The deployment role does not have sufficient permissions to perform this deployment.'',
     resolutionMessage = js ''Ensure your deployment role has the AmplifyBackendDeployFullAccess role along with any additional permissions required to deploy your backend definition.'',
     errorName = AccessDeniedError,
     classification = ERROR\<rparr>,
    \<comment> \<open>entry 3\<close>
    \<lparr>errorRegex = alts [Grp None (Lit (js ''Has the environment been bootstrapped'')), Grp None (seqs [Lit
        (js ''Is account ''), Plus digit, Lit (js '' bootstrapped'')]), Grp None (Lit
        (js ''Is this account bootstrapped''))],
     humanReadableErrorMessage = js ''This AWS account and region has not been bootstrapped.'',
     resolutionMessage = js ''Run `cdk bootstrap aws://{YOUR_ACCOUNT_ID}/{YOUR_REGION}` locally to resolve this.'',
     errorName = BootstrapNotDetectedError,
     classification = ERROR\<rparr>,
    \<comment> \<open>entry 4\<close>
    \<lparr>errorRegex = seqs [Lit (js ''This CDK deployment requires bootstrap stack version ''), Plus non_space, Lit
        (js '', found ''), Plus non_space, Lit (js ''. Please run 'cdk bootstrap'.'')],
     humanReadableErrorMessage = js ''This AWS account and region has outdated CDK bootstrap stack.'',
     resolutionMessage = js ''Run `cdk bootstrap aws://{YOUR_ACCOUNT_ID}/{YOUR_REGION}` locally to re-bootstrap.'',
     errorName = BootstrapOutdatedError,
     classification = ERROR\<rparr>,
    \<comment> \<open>entry 5\<close>
    \<lparr>errorRegex = seqs [Lit (js ''This CDK deployment requires bootstrap stack version ''), Plus non_space, Lit
        (js '', but during the confirmation via SSM parameter ''), Plus non_space, Lit
        (js '' the following error occurred: AccessDeniedException'')],
     humanReadableErrorMessage = js ''Unable to detect CDK bootstrap stack due to permission issues.'',
     resolutionMessage = js ''Ensure that AWS credentials have an IAM policy that grants read access to 'arn:aws:ssm:*:*:parameter/cdk-bootstrap/*' SSM parameters.'',
     errorName = BootstrapDetectionError,
     classification = ERROR\<rparr>,
    \<comment> \<open>entry 6\<close>
    \<lparr>errorRegex = Lit
        (js ''This CDK CLI is not compatible with the CDK library used by your application. Please upgrade the CLI to the latest version.''),
     humanReadableErrorMessage = js ''Installed 'aws-cdk' is not compatible with installed 'aws-cdk-lib'.'',
     resolutionMessage = js ''Make sure that version of 'aws-cdk' is greater or equal to version of 'aws-cdk-lib'' @ [39],
     errorName = CDKVersionMismatchError,
     classification = ERROR\<rparr>,
    \<comment> \<open>entry 7: Command cdk not found\<close>
    \<lparr>errorRegex = Lit (js ''Command cdk not found''),
     humanReadableErrorMessage = js ''Unable to detect cdk installation'',
     resolutionMessage = js ''Ensure dependencies in your project are installed with your package manager. For example, by running 'yarn install' or 'npm install''
        @ [39],
     errorName = CDKNotFoundError,
     classification = ERROR\<rparr>,
    \<comment> \<open>entry 8: Role (?<roleArn>.*) is invalid or cannot be assumed\<close>
    \<lparr>errorRegex = seqs [Lit (js ''Role ''), Grp (Some ''roleArn'') (Star Dot), Lit
        (js '' is invalid or cannot be assumed'')],
     humanReadableErrorMessage = js ''Role {roleArn} is invalid or cannot be assumed'',
     resolutionMessage = js ''Ensure the role exists and AWS credentials have an IAM policy that grants sts:AssumeRole for the role'',
     errorName = InvalidOrCannotAssumeRoleError,
     classification = ERROR\<rparr>,
    \<comment> \<open>entry 9: Unable to resolve AWS account to use\<close>
    \<lparr>errorRegex = Lit (js ''Unable to resolve AWS account to use''),
     humanReadableErrorMessage = js ''Unable to resolve AWS account to use. It must be either configured when you define your CDK Stack, or through the environment'',
     resolutionMessage = js ''You can retry your last request as this is most likely a transient issue: https://github.com/aws/aws-cdk/issues/24744. If the error persists ensure your local AWS credentials are valid.'',
     errorName = CDKResolveAWSAccountError,
     classification = ERROR\<rparr>,
    \<comment> \<open>entry 10: EACCES(.*)\<close>
    \<lparr>errorRegex = seqs [Lit (js ''EACCES''), Grp None (Star Dot)],
     humanReadableErrorMessage = js ''File permissions error'',
     resolutionMessage = js ''Check that you have the right access permissions to the mentioned file'',
     errorName = FilePermissionsError,
     classification = ERROR\<rparr>,
    \<comment> \<open>entry 11\<close>
    \<lparr>errorRegex = seqs [Lit (js ''operation not permitted, rename ''), Grp (Some ''fileName'') (seqs [Grp None (Star
        Dot), Lit (js ''/synth.lock.''), Plus non_space]), Lit (js '' '' @ [8594] @ js '' '' @
        [39]), Grp None (Star Dot), Lit (js ''/synth.lock'' @ [39])],
     humanReadableErrorMessage = js ''Not permitted to rename file: {fileName}'',
     resolutionMessage = js ''Try running the command again and ensure that only one instance of sandbox is running. If it still doesn't work check the permissions of '.amplify' folder'',
     errorName = FilePermissionsError,
     classification = ERROR\<rparr>,
    \<comment> \<open>entry 12\<close>
    \<lparr>errorRegex = seqs [Lit (js ''operation not permitted, mkdir '' @ [39]), Grp None (Star Dot), Dot, Lit
        (js ''amplify/artifacts/cdk''), Dot, Lit (js ''out'' @ [39])],
     humanReadableErrorMessage = js ''Not permitted to create the directory '.amplify/artifacts/cdk.out'' @ [39],
     resolutionMessage = js ''Check the permissions of '.amplify' folder and try running the command again'',
     errorName = FilePermissionsError,
     classification = ERROR\<rparr>,
    \<comment> \<open>entry 13\<close>
    \<lparr>errorRegex = seqs [Lit (js ''operation not permitted, ''), Grp None (alts [Lit (js ''unlink''), Lit
        (js ''open'')]), Lit (js '' ''), Grp (Some ''fileName'') (seqs [Grp None (Star Dot), Lit
        (js ''.lock''), Plus non_space])],
     humanReadableErrorMessage = js ''Operation not permitted on file: {fileName}'',
     resolutionMessage = js ''Check the permissions of '.amplify' folder and try running the command again'',
     errorName = FilePermissionsError,
     classification = ERROR\<rparr>,
    \<comment> \<open>entry 14: Cannot find module (.*)\<close>
    \<lparr>errorRegex = seqs [Lit (js ''Cannot find module ''), Grp None (Star Dot)],
     humanReadableErrorMessage = js ''Cannot find module'',
     resolutionMessage = js ''Check your backend definition in the `amplify` folder for missing file or package imports. Try installing them with your package manager.'',
     errorName = ModuleNotFoundError,
     classification = ERROR\<rparr>,
    \<comment> \<open>entry 15\<close>
    \<lparr>errorRegex = alts [seqs [Lit (js ''Another CLI ''), Grp None (Star Dot), Lit (js '' is currently''), Grp None
        (Star Dot), Lit (js ''. '')], seqs [Lit (js ''Other CLIs ''), Grp None (Star Dot), Lit
        (js '' are currently reading from''), Grp None (Star Dot), Lit (js ''. '')]],
     humanReadableErrorMessage = js ''Multiple sandbox instances detected.'',
     resolutionMessage = js ''Make sure only one instance of sandbox is running for this project'',
     errorName = MultipleSandboxInstancesError,
     classification = ERROR\<rparr>,
    \<comment> \<open>entry 16\<close>
    \<lparr>errorRegex = seqs [Grp None (Star Dot), Lit (js '' ''), Grp None (alts [Lit (js ''size must be smaller than''),
        Lit (js ''exceeds the maximum allowed size of'')]), Lit (js '' ''), Grp (Some ''maxSize'')
        (Plus digit), Lit (js '' bytes'')],
     humanReadableErrorMessage = js ''Maximum Lambda size exceeded'',
     resolutionMessage = js ''Make sure your Lambda bundled packages with layers and dependencies is smaller than {maxSize} bytes unzipped.'',
     errorName = LambdaMaxSizeExceededError,
     classification = ERROR\<rparr>,
    \<comment> \<open>entry 17: Uploaded file must be a non-empty zip\<close>
    \<lparr>errorRegex = Lit (js ''Uploaded file must be a non-empty zip''),
     humanReadableErrorMessage = js ''Lambda bundled into an empty zip'',
     resolutionMessage = js ''Try removing '.amplify/artifacts' then running the command again. If it still doesn't work, see https://github.com/aws/aws-cdk/issues/18459 for more methods.'',
     errorName = LambdaEmptyZipFault,
     classification = FAULT\<rparr>,
    \<comment> \<open>entry 18: User:(.*) is not authorized to perform: lambda:GetLayerVersion on resource:(.*) because no resource-based policy allows the lambda:GetLayerVersion action\<close>
    \<lparr>errorRegex = seqs [Lit (js ''User:''), Grp None (Star Dot), Lit
        (js '' is not authorized to perform: lambda:GetLayerVersion on resource:''), Grp None (Star
        Dot), Lit
        (js '' because no resource-based policy allows the lambda:GetLayerVersion action'')],
     humanReadableErrorMessage = js ''Unable to get Lambda layer version'',
     resolutionMessage = js ''Make sure layer ARNs are correct and layer regions match function region'',
     errorName = GetLambdaLayerVersionError,
     classification = ERROR\<rparr>,
    \<comment> \<open>entry 19\<close>
    \<lparr>errorRegex = seqs [Lit (js ''The stack named ''), Grp (Some ''stackName'') (Star Dot), Lit
        (js '' is in a failed state''), Dot, Lit
        (js '' You may need to delete it from the AWS console : DELETE_FAILED (The following resource(s) failed to delete: ''),
        Grp (Some ''resources'') (Star Dot), Dot, Lit (js '' )'')],
     humanReadableErrorMessage = js ''The CloudFormation deletion failed due to {stackName} being in DELETE_FAILED state. Ensure all your resources are able to be deleted'',
     resolutionMessage = js ''The following resource(s) failed to delete: {resources}. Check the error message for more details and ensure your resources are in a state where they can be deleted. Check the CloudFormation AWS Console for this stack to find additional information.'',
     errorName = CloudFormationDeletionError,
     classification = ERROR\<rparr>,
    \<comment> \<open>entry 20: User:(.*) is not authorized to perform:(.*) on resource:(?<resource>.*) because no identity-based policy allows the (?<action>.*) action\<close>
    \<lparr>errorRegex = seqs [Lit (js ''User:''), Grp None (Star Dot), Lit (js '' is not authorized to perform:''), Grp None
        (Star Dot), Lit (js '' on resource:''), Grp (Some ''resource'') (Star Dot), Lit
        (js '' because no identity-based policy allows the ''), Grp (Some ''action'') (Star Dot),
        Lit (js '' action'')],
     humanReadableErrorMessage = js ''Unable to deploy due to insufficient permissions'',
     resolutionMessage = js ''Ensure you have permissions to call {action} for {resource}'',
     errorName = AccessDeniedError,
     classification = ERROR\<rparr>,
    \<comment> \<open>entry 21: User:(.*) is not authorized to perform:(.*) because no identity-based policy allows the (?<action>.*) action\<close>
    \<lparr>errorRegex = seqs [Lit (js ''User:''), Grp None (Star Dot), Lit (js '' is not authorized to perform:''), Grp None
        (Star Dot), Lit (js '' because no identity-based policy allows the ''), Grp (Some
        ''action'') (Star Dot), Lit (js '' action'')],
     humanReadableErrorMessage = js ''Unable to deploy due to insufficient permissions'',
     resolutionMessage = js ''Ensure you have permissions to call {action}'',
     errorName = AccessDeniedError,
     classification = ERROR\<rparr>,
    \<comment> \<open>entry 22: User:(.*) is not authorized to perform:(?<action>.*) on resource:(?<resource>.*)\<close>
    \<lparr>errorRegex = seqs [Lit (js ''User:''), Grp None (Star Dot), Lit (js '' is not authorized to perform:''), Grp
        (Some ''action'') (Star Dot), Lit (js '' on resource:''), Grp (Some ''resource'') (Star
        Dot)],
     humanReadableErrorMessage = js ''Unable to deploy due to insufficient permissions'',
     resolutionMessage = js ''Ensure you have permissions to call {action} for {resource}'',
     errorName = AccessDeniedError,
     classification = ERROR\<rparr>,
    \<comment> \<open>entry 23\<close>
    \<lparr>errorRegex = seqs [Lit (js ''Found ''), Grp (Some ''number'') (Star Dot), Lit
        (js '' problem(s) with the schema:'')],
     humanReadableErrorMessage = js ''{number} problem(s) have been found with your schema'',
     resolutionMessage = js ''See the underlying error message for details about what the problems are and resolve them before attempting this action again'',
     errorName = SchemaError,
     classification = ERROR\<rparr>,
    \<comment> \<open>entry 24\<close>
    \<lparr>errorRegex = seqs [Lit (js ''Transform failed with ''), Star Dot, Lit (js '' error''), Grp None (Opt (Lit
        (js ''s''))), Lit (js '':''), multiLineEolRegex, Grp (Some ''esBuildErrorMessage'') (Plus
        (Grp None (seqs [Star Dot, multiLineEolRegex])))],
     humanReadableErrorMessage = js ''{esBuildErrorMessage}'',
     resolutionMessage = js ''Fix the above mentioned type or syntax error in your backend definition.'',
     errorName = ESBuildError,
     classification = ERROR\<rparr>,
    \<comment> \<open>entry 25: Amplify Backend not found in\<close>
    \<lparr>errorRegex = Lit (js ''Amplify Backend not found in''),
     humanReadableErrorMessage = js ''Backend definition could not be found in amplify directory.'',
     resolutionMessage = js ''Ensure that the amplify/backend.(ts|js) file exists'',
     errorName = FileConventionError,
     classification = ERROR\<rparr>,
    \<comment> \<open>entry 26: Amplify (.*) must be defined in (.*)\<close>
    \<lparr>errorRegex = seqs [Lit (js ''Amplify ''), Grp None (Star Dot), Lit (js '' must be defined in ''), Grp None (Star
        Dot)],
     humanReadableErrorMessage = js ''File name or path for backend definition are incorrect.'',
     resolutionMessage = js ''Ensure that the amplify/backend.(ts|js) file exists'',
     errorName = FileConventionError,
     classification = ERROR\<rparr>,
    \<comment> \<open>entry 27: Updates are not allowed for property\<close>
    \<lparr>errorRegex = Lit (js ''Updates are not allowed for property''),
     humanReadableErrorMessage = js ''The changes that you are trying to apply are not supported.'',
     resolutionMessage = js ''The resources referenced in the error message must be deleted and recreated to apply the changes.'',
     errorName = CFNUpdateNotSupportedError,
     classification = ERROR\<rparr>,
    \<comment> \<open>entry 28: Invalid AttributeDataType input, consider using the provided AttributeDataType enum\<close>
    \<lparr>errorRegex = Lit (js ''Invalid AttributeDataType input, consider using the provided AttributeDataType enum''),
     humanReadableErrorMessage = js ''User pool attributes cannot be changed after a user pool has been created.'',
     resolutionMessage = js ''To change these attributes, remove `defineAuth` from your backend, deploy, then add it back. Note that removing `defineAuth` and deploying will delete any users stored in your UserPool.'',
     errorName = CFNUpdateNotSupportedError,
     classification = ERROR\<rparr>,
    \<comment> \<open>entry 29\<close>
    \<lparr>errorRegex = seqs [Lit (js ''connect ENOMEM ''), Grp (Some ''remoteAddress'') (seqs [Plus digit, Lit (js ''.''),
        Plus digit, Lit (js ''.''), Plus digit, Lit (js ''.''), Plus digit]), Star Dot],
     humanReadableErrorMessage = js ''Unable to connect to remote address {remoteAddress} due to insufficient memory.'',
     resolutionMessage = js ''There appears to be insufficient memory on your system to finish. Close other applications or restart your system and try again.'',
     errorName = InsufficientMemorySpaceError,
     classification = ERROR\<rparr>,
    \<comment> \<open>entry 30\<close>
    \<lparr>errorRegex = seqs [Lit (js ''npm error code EJSONPARSE''), multiLineEolRegex, Lit (js ''npm error path ''), Grp
        (Some ''filePath'') (seqs [Star Dot, Lit (js ''/package.json'')]), multiLineEolRegex, Star
        (Grp None (seqs [Lit (js ''npm error ''), Grp None (Star Dot), multiLineEolRegex]))],
     humanReadableErrorMessage = js ''The {filePath} is not a valid JSON.'',
     resolutionMessage = js ''Check package.json file and make sure it is a valid JSON.'',
     errorName = InvalidPackageJsonError,
     classification = ERROR\<rparr>,
    \<comment> \<open>entry 31\<close>
    \<lparr>errorRegex = Grp (Some ''npmError'') (seqs [Grp None (alts [Lit (js ''npm error''), Lit (js ''npm ERR!'')]), Lit
        (js '' code ENOENT''), multiLineEolRegex, Star (Grp None (seqs [Grp None (alts [Lit
        (js ''npm error''), Lit (js ''npm ERR!'')]), Lit (js '' ''), Grp None (Star Dot),
        multiLineEolRegex]))]),
     humanReadableErrorMessage = js ''NPM error occurred: {npmError}'',
     resolutionMessage = js ''See https://docs.npmjs.com/common-errors for resolution.'',
     errorName = CommonNPMError,
     classification = ERROR\<rparr>,
    \<comment> \<open>entry 32\<close>
    \<lparr>errorRegex = seqs [Lit (js ''no such file or directory, open '' @ [39]), Star Dot, Lit (js ''.amplify''), Dot,
        Lit (js ''artifacts''), Dot, Lit (js ''cdk.out''), Dot, Lit (js ''manifest.json'' @ [39])],
     humanReadableErrorMessage = js ''The Amplify backend definition is missing `defineBackend` call.'',
     resolutionMessage = js ''Check your backend definition in the `amplify` folder. Ensure that `amplify/backend.ts` contains `defineBackend` call.'',
     errorName = MissingDefineBackendError,
     classification = ERROR\<rparr>,
    \<comment> \<open>entry 33: no such file or directory, (?<action_and_filepath>.*)$\<close>
    \<lparr>errorRegex = seqs [Lit (js ''no such file or directory, ''), Grp (Some ''action_and_filepath'') (Star Dot), Eoi],
     humanReadableErrorMessage = js ''Failed to {action_and_filepath}'',
     resolutionMessage = js ''File or directory not found. Failed to {action_and_filepath}'',
     errorName = FileNotFoundError,
     classification = ERROR\<rparr>,
    \<comment> \<open>entry 34\<close>
    \<lparr>errorRegex = Lit (js ''amplify/backend''),
     humanReadableErrorMessage = js ''Unable to build Amplify backend.'',
     resolutionMessage = js ''Check your backend definition in the `amplify` folder for syntax and type errors.'',
     errorName = BackendBuildError,
     classification = ERROR\<rparr>,
    \<comment> \<open>entry 35: Failed to retrieve backend secret (?<secretName>.*) for.*ParameterNotFound\<close>
    \<lparr>errorRegex = seqs [Lit (js ''Failed to retrieve backend secret ''), Grp (Some ''secretName'') (Star Dot), Lit
        (js '' for''), Star Dot, Lit (js ''ParameterNotFound'')],
     humanReadableErrorMessage = js ''The secret {secretName} specified in the backend does not exist.'',
     resolutionMessage = js ''Create secrets using the command '' @ normalizeAmpxCommand d (js ''sandbox secret set'') @
        js ''. For more information, see https://docs.amplify.aws/gen2/deploy-and-host/sandbox-environments/features/#set-secrets'',
     errorName = SecretNotSetError,
     classification = ERROR\<rparr>,
    \<comment> \<open>entry 36: The code contains one or more errors|The code contains one or more errors.*AppSync\<close>
    \<lparr>errorRegex = alts [Lit (js ''The code contains one or more errors''), seqs [Lit
        (js ''The code contains one or more errors''), Star Dot, Lit (js ''AppSync'')]],
     humanReadableErrorMessage = js ''A custom resolver used in your defineData contains one or more errors'',
     resolutionMessage = js ''Check for any syntax errors in your custom resolvers code.'',
     errorName = AppSyncResolverSyntaxError,
     classification = ERROR\<rparr>,
    \<comment> \<open>entry 37: Failed to publish asset\<close>
    \<lparr>errorRegex = Lit (js ''Failed to publish asset''),
     humanReadableErrorMessage = js ''CDK failed to publish assets'',
     resolutionMessage = js ''Check the error message for more details.'',
     errorName = CDKAssetPublishError,
     classification = ERROR\<rparr>,
    \<comment> \<open>entry 38\<close>
    \<lparr>errorRegex = seqs [Lit (js ''destroy failed Error: Stack [''), Grp (Some ''stackArn'') (Star Dot), Lit
        (js ''] cannot be deleted while in status '')],
     humanReadableErrorMessage = js ''Backend failed to be deleted since the previous deployment is still in progress.'',
     resolutionMessage = js ''Wait for the previous deployment for stack {stackArn} to be completed before attempting to delete again.'',
     errorName = DeleteFailedWhileDeploymentInProgressError,
     classification = ERROR\<rparr>,
    \<comment> \<open>entry 39\<close>
    \<lparr>errorRegex = seqs [Lit (js ''ValidationError: Circular dependency between resources: [''), Grp (Some
        ''resources'') (Star Dot), Lit (js '']'')],
     humanReadableErrorMessage = js ''The CloudFormation deployment failed due to circular dependency found between nested stacks [{resources}]'',
     resolutionMessage = js ''If you are using functions then you can assign them to existing nested stacks that are dependent on functions or functions depend on them, for example:''
        @ [10] @
        js ''1. If your function is defined as auth triggers, you should assign this function to auth stack.''
        @ [10] @
        js ''2. If your function is used as data resolver or calls data API, you should assign this function to data stack.''
        @ [10] @
        js ''To assign a function to a different stack, use the property 'resourceGroupName' in the defineFunction call and choose auth, data or any custom stack.''
        @ [10, 10] @
        js ''If your circular dependency issue is not resolved with this workaround, please create an issue here https://github.com/aws-amplify/amplify-backend/issues/new/choose''
        @ [10],
     errorName = CloudformationStackCircularDependencyError,
     classification = ERROR\<rparr>,
    \<comment> \<open>entry 40\<close>
    \<lparr>errorRegex = seqs [NotBehind (js ''ValidationError: ''), Lit (js ''Circular dependency between resources: [''),
        Grp (Some ''resources'') (Star Dot), Lit (js '']'')],
     humanReadableErrorMessage = js ''The CloudFormation deployment failed due to circular dependency found between resources [{resources}] in a single stack'',
     resolutionMessage = js ''If you are creating custom stacks or adding new CDK resources to amplify stacks, ensure that there are no cyclic dependencies. For more details see: https://aws.amazon.com/blogs/infrastructure-and-automation/handling-circular-dependency-errors-in-aws-cloudformation/'',
     errorName = CloudformationResourceCircularDependencyError,
     classification = ERROR\<rparr>,
    \<comment> \<open>entry 41: (?<stackName>amplify[a-z0-9-]+)(.*) failed: ValidationError: Stack:(.*) is in (?<state>.*) state and can not be updated\<close>
    \<lparr>errorRegex = seqs [Grp (Some ''stackName'') (seqs [Lit (js ''amplify''), Plus (Cls False [(97, 122), (48, 57),
        (45, 45)])]), Grp None (Star Dot), Lit (js '' failed: ValidationError: Stack:''), Grp None
        (Star Dot), Lit (js '' is in ''), Grp (Some ''state'') (Star Dot), Lit
        (js '' state and can not be updated'')],
     humanReadableErrorMessage = js ''The CloudFormation deployment failed due to {stackName} being in {state} state.'',
     resolutionMessage = js ''Find more information in the CloudFormation AWS Console for this stack.'',
     errorName = CloudFormationDeploymentError,
     classification = ERROR\<rparr>,
    \<comment> \<open>entry 42\<close>
    \<lparr>errorRegex = seqs [Lit (js ''failed: ValidationError: Stack [''), Grp (Some ''stackName'') (seqs [Lit
        (js ''amplify''), Plus (Cls False [(97, 122), (48, 57), (45, 45)])]), Grp None (Star Dot),
        Lit (js ''] cannot be deleted while TerminationProtection is enabled'')],
     humanReadableErrorMessage = js ''{stackName} cannot be deleted because it has termination deployment enabled.'',
     resolutionMessage = js ''If you are sure you want to delete {stackName}, you will need to disable TerminationProtection.'',
     errorName = CloudFormationDeletionError,
     classification = ERROR\<rparr>,
    \<comment> \<open>entry 43\<close>
    \<lparr>errorRegex = alts [seqs [Lit (js ''Deployment failed: ''), Grp None (Star Dot), multiLineEolRegex], seqs [Lit
        (js ''The stack named ''), Grp None (Star Dot), Lit (js '' failed ''), Grp None (alts [Lit
        (js ''to deploy:''), Lit (js ''creation,'')]), Lit (js '' ''), Grp None (Star Dot)]],
     humanReadableErrorMessage = js ''The CloudFormation deployment has failed.'',
     resolutionMessage = js ''Find more information in the CloudFormation AWS Console for this stack.'',
     errorName = CloudFormationDeploymentError,
     classification = ERROR\<rparr>
  ]"

text \<open>The closed taxonomy of error kinds, as the spec lists it.\<close>

definition taxonomy :: "jsstring set" where
  "taxonomy = {
    js ''AccessDeniedError'', js ''AuthenticationError'', js ''AppSyncResolverSyntaxError'',
     js ''BackendBuildError'', js ''BootstrapNotDetectedError'', js ''BootstrapDetectionError'',
     js ''BootstrapOutdatedError'', js ''CDKAssetPublishError'', js ''CDKAssetBundleError'',
     js ''CDKNotFoundError'', js ''CDKResolveAWSAccountError'', js ''CDKVersionMismatchError'',
     js ''CFNUpdateNotSupportedError'', js ''CloudformationResourceCircularDependencyError'',
     js ''CloudformationStackCircularDependencyError'', js ''CloudFormationDeletionError'',
     js ''CloudFormationDeploymentError'', js ''CommonNPMError'',
     js ''DeleteFailedWhileDeploymentInProgressError'', js ''FilePermissionsError'',
     js ''MissingDefineBackendError'', js ''MultipleSandboxInstancesError'', js ''ESBuildError'',
     js ''ExpiredTokenError'', js ''FileConventionError'', js ''FileNotFoundError'',
     js ''ModuleNotFoundError'', js ''InsufficientMemorySpaceError'',
     js ''InvalidOrCannotAssumeRoleError'', js ''InvalidPackageJsonError'', js ''SchemaError'',
     js ''SecretNotSetError'', js ''SyntaxError'', js ''GetLambdaLayerVersionError'',
     js ''LambdaEmptyZipFault'', js ''LambdaMaxSizeExceededError'', js ''RequestSignatureError'',
     js ''NodeVersionNotSupportedError'', js ''unknown''}"

section \<open>The classifier\<close>

definition getCDKError :: "heap \<Rightarrow> addr \<Rightarrow> addr option completion \<times> heap" where
  "getCDKError h error =
     (if isAuthenticationError (h ! error) then
        (case new h (AmplifyUserError (js ''AuthenticationError'')
                       (js ''Unable to deploy due to insufficient permissions'')
                       (Some (js ''Check the Caused by error and ensure you have the necessary permissions''))
                       (Some error)) of
           (r, h') \<Rightarrow> (Return (Some r), h'))
      else if isAssemblyError (h ! error) then
        (case new h (AmplifyUserError (js ''BackendBuildError'')
                       (js ''Unable to deploy due to CDK Assembly Error'')
                       (Some (js ''Check the Caused by error and fix any issues in your backend code''))
                       (Some error)) of
           (r, h') \<Rightarrow> (Return (Some r), h'))
      else if isContextProviderError (h ! error) then
        (case new h (AmplifyFault (js ''CDKContextProviderFault'')
                       (js ''Unable to deploy due to CDK Context Provider Error'')
                       None
                       (Some error)) of
           (r, h') \<Rightarrow> (Return (Some r), h'))
      else if list_ex (\<lambda>errorName. errorName = name (h ! error))
                [js ''TypeError'', js ''TransformError'', js ''ReferenceError'', js ''SyntaxError''] then
        (case new h (AmplifyUserError (js ''SyntaxError'')
                       (js ''Unable to build the Amplify backend definition.'')
                       (Some (js ''Check the Caused by error and fix any issues in your backend code''))
                       (Some error)) of
           (r, h') \<Rightarrow> (Throw r, h'))
      else if isToolkitError (h ! error) then (Return None, h)
      else (Return None, h))"

text \<open>The place holder of a group in a template: the name of the group in braces.\<close>

definition place_holder :: "string \<Rightarrow> jsstring" where
  "place_holder key = js ''{'' @ js key @ js ''}''"

text \<open>
  The loop over the entries of \<open>matchGroups.groups\<close>: its state is the two templates of the
  matching rule and \<open>underlyingError\<close>. An undefined value is inserted as the text
  \<open>undefined\<close>.
\<close>

fun substitute_groups ::
  "(string \<times> jsstring option) list \<Rightarrow> jsstring \<times> jsstring \<times> addr option
     \<Rightarrow> jsstring \<times> jsstring \<times> addr option" where
  "substitute_groups [] st = st"
| "substitute_groups ((key, val) # entries) (humanReadable, resolutionMsg, underlyingError) =
     (let placeHolder = place_holder key;
          v = (case val of None \<Rightarrow> js ''undefined'' | Some t \<Rightarrow> t)
      in if string_includes humanReadable placeHolder \<or> string_includes resolutionMsg placeHolder
         then substitute_groups entries
                (string_replace humanReadable placeHolder v,
                 string_replace resolutionMsg placeHolder v,
                 None)
         else substitute_groups entries (humanReadable, resolutionMsg, underlyingError))"

text \<open>
  The block that extracts the context of a match (\<open>if (matchGroups && matchGroups.length > 1)\<close>
  and its branches). It works on the entry of the table built for this call and on
  \<open>underlyingError\<close>, which is the caller's error at this point; it yields the two texts of
  the entry, \<open>underlyingError\<close> and the store. Without named groups it assigns the matched
  text to the message of the caller's error.
\<close>

definition extract_context ::
  "heap \<Rightarrow> addr \<Rightarrow> jsstring \<Rightarrow> known_error \<Rightarrow> jsstring \<times> jsstring \<times> addr option \<times> heap" where
  "extract_context h error errorMessage matchingError =
     (case string_match errorMessage (errorRegex matchingError) of
        Some matchGroups \<Rightarrow>
          if array_length matchGroups > 1 then
            (case groups matchGroups of
               Some entries \<Rightarrow>
                 (case substitute_groups entries
                         (humanReadableErrorMessage matchingError,
                          resolutionMessage matchingError, Some error) of
                    (humanReadable, resolutionMsg, underlyingError) \<Rightarrow>
                      (remove_first_match humanReadable (Seq multiLineEolRegex Eoi),
                       resolutionMsg, underlyingError, h))
             | None \<Rightarrow>
                 (humanReadableErrorMessage matchingError, resolutionMessage matchingError,
                  Some error, h[error := (h ! error)\<lparr>message := matched matchGroups\<rparr>]))
          else (humanReadableErrorMessage matchingError, resolutionMessage matchingError,
                Some error, h)
      | None \<Rightarrow> (humanReadableErrorMessage matchingError, resolutionMessage matchingError,
                 Some error, h))"

text \<open>
  The object that the \<open>return\<close> statement after a match builds: an \<open>AmplifyUserError\<close> when
  the classification of the entry is \<open>ERROR\<close>, an \<open>AmplifyFault\<close> otherwise.
\<close>

definition known_error_result ::
  "known_error \<Rightarrow> jsstring \<Rightarrow> jsstring \<Rightarrow> addr option \<Rightarrow> js_error" where
  "known_error_result matchingError humanReadable resolutionMsg underlyingError =
     (if classification matchingError = ERROR
      then AmplifyUserError (kind_name (errorName matchingError)) humanReadable
             (Some resolutionMsg) underlyingError
      else AmplifyFault (kind_name (errorName matchingError)) humanReadable
             (Some resolutionMsg) underlyingError)"

definition getAmplifyError ::
  "collaborators \<Rightarrow> heap \<Rightarrow> addr \<Rightarrow> jsstring option \<Rightarrow> addr completion \<times> heap" where
  "getAmplifyError d h error deploymentType =
     (case fromStderr d (message (h ! error)) of
        Some amplifyError \<Rightarrow> (case new h amplifyError of (r, h') \<Rightarrow> (Return r, h'))
      | None \<Rightarrow>
     if isAmplifyError (h ! error) then (Return error, h)
     else
     (case getCDKError h error of
        (Throw x, h1) \<Rightarrow> (Throw x, h1)
      | (Return (Some errorFromCDK), h1) \<Rightarrow> (Return errorFromCDK, h1)
      | (Return None, h1) \<Rightarrow>
     if string_includes (message (h1 ! error)) (js ''does not support module.register()'') then
       (case new h1 (AmplifyUserError (js ''NodeVersionNotSupportedError'')
                (js ''Unable to deploy due to unsupported node version'')
                (Some (if deploymentType = Some (js ''branch'')
                       then js ''Upgrade the node version in your CI/CD environment. ''
                            @ js ''If you are using Amplify Hosting for your backend builds, you can add `nvm install 18.x` or `nvm install 20.x` in your `amplify.yml` before the `pipeline-deploy` command''
                       else js ''Upgrade to node `^18.19.0`, `^20.6.0,` or `>=22`''))
                (Some error)) of
          (r, h') \<Rightarrow> (Return r, h'))
     else if string_includes (message (h1 ! error)) (js ''Failed to bundle asset'') then
       (case new h1 (AmplifyUserError (js ''CDKAssetBundleError'')
                (js ''CDK failed to bundle your function code'')
                (Some (js ''Check the error messages above for mode details''))
                None) of
          (r, h') \<Rightarrow> (Return r, h'))
     else
     (let errorMessage = stripANSI d (message (h1 ! error)) in
      case find (\<lambda>knownError. regex_test (errorRegex knownError) errorMessage) (getKnownErrors d) of
        Some matchingError \<Rightarrow>
          (case extract_context h1 error errorMessage matchingError of
             (humanReadable, resolutionMsg, underlyingError, h2) \<Rightarrow>
               (case new h2 (known_error_result matchingError humanReadable resolutionMsg
                               underlyingError) of
                  (r, h') \<Rightarrow> (Return r, h')))
      | None \<Rightarrow> (case fromError h1 error of (r, h') \<Rightarrow> (Return r, h')))))"

section \<open>What a caller observes\<close>

text \<open>
  What the classifier shows of an outcome: whether it was thrown, and the kind, message,
  resolution and severity of the error.
\<close>

definition observed :: "addr completion \<times> heap \<Rightarrow>
    bool \<times> jsstring \<times> jsstring \<times> jsstring option \<times> AmplifyErrorClassification option" where
  "observed res =
     (case res of (out, h') \<Rightarrow>
        (is_throw out, name (h' ! completion_error out), message (h' ! completion_error out),
         resolution (h' ! completion_error out),
         amplify_classification (h' ! completion_error out)))"

section \<open>Collaborators and inputs of the examples\<close>

text \<open>
  A stand-in for \<open>stripANSI\<close> in the examples: it removes the control sequences that
  colour a text, an escape character, an opening bracket, digits and semicolons and one
  final character. The state is 0 in plain text, 1 after the escape character and 2
  inside a sequence.
\<close>

fun strip_csi :: "nat \<Rightarrow> jsstring \<Rightarrow> jsstring" where
  "strip_csi st [] = []"
| "strip_csi st (c # cs) =
     (if st = 0 then (if c = 27 then strip_csi 1 cs else c # strip_csi 0 cs)
      else if st = 1 then (if c = 91 then strip_csi 2 cs else 27 # c # strip_csi 0 cs)
      else (if (48 \<le> c \<and> c \<le> 57) \<or> c = 59 then strip_csi 2 cs else strip_csi 0 cs))"

text \<open>
  The collaborators of the examples: no text carries a serialized error, and a command
  is shown after \<open>npx ampx\<close>.
\<close>

definition sample :: collaborators where
  "sample = \<lparr>fromStderr = (\<lambda>m. None), stripANSI = strip_csi 0,
     normalizeAmpxCommand = (\<lambda>c. js ''npx ampx '' @ c)\<rparr>"

text \<open>
  Collaborators whose \<open>fromStderr\<close> finds a serialized error in every text that contains
  \<open>serializedError\<close>, and rebuilds from it a fault of the child process.
\<close>

definition embedding :: collaborators where
  "embedding = \<lparr>fromStderr =
       (\<lambda>m. if string_includes m (js ''serializedError'')
            then Some (AmplifyFault (js ''ChildProcessFault'') (js ''the child process failed'')
                         None None)
            else None),
     stripANSI = strip_csi 0,
     normalizeAmpxCommand = (\<lambda>c. js ''npx ampx '' @ c)\<rparr>"

text \<open>An error that is neither a structured error nor an error of the toolkit.\<close>

definition plain_error :: "jsstring \<Rightarrow> jsstring \<Rightarrow> js_error" where
  "plain_error nm m =
     \<lparr>name = nm, message = m, cause = None, amplify_classification = None,
      resolution = None, toolkit_error = False, authentication_error = False,
      assembly_error = False, context_provider_error = False\<rparr>"

text \<open>
  \<open>Access Denied\<close> in red, and \<open>Failed to bundle asset\<close> with its second word in bold: the
  code unit 27 is the escape character.
\<close>

definition coloured_access_denied :: jsstring where
  "coloured_access_denied = 27 # js ''[31mAccess Denied'' @ 27 # js ''[39m''"

definition interrupted_bundle_phrase :: jsstring where
  "interrupted_bundle_phrase = js ''Failed to '' @ 27 # js ''[1mbundle'' @ 27 # js ''[22m asset''"

section \<open>The branches of the classifier\<close>

lemma getCDKError_cases:
  "getCDKError h a = (Return None, h)
   \<or> (\<exists>e. getCDKError h a = (Return (Some (length h)), h @ [e])
          \<and> name e \<in> {js ''AuthenticationError'', js ''BackendBuildError'',
                        js ''CDKContextProviderFault''}
          \<and> isAmplifyError e)
   \<or> (\<exists>e. getCDKError h a = (Throw (length h), h @ [e]))"
  by (simp add: getCDKError_def new_def AmplifyUserError_def AmplifyFault_def isAmplifyError_def)

lemma known_error_result_fields:
  "name (known_error_result k hm rm ue) = kind_name (errorName k)"
  "message (known_error_result k hm rm ue) = hm"
  "resolution (known_error_result k hm rm ue) = Some rm"
  "cause (known_error_result k hm rm ue) = ue"
  "amplify_classification (known_error_result k hm rm ue) = Some (classification k)"
  "isAmplifyError (known_error_result k hm rm ue)"
  by (cases "classification k";
      simp add: known_error_result_def AmplifyUserError_def AmplifyFault_def isAmplifyError_def)+

lemma getAmplifyError_fromStderr:
  "fromStderr d (message (h ! a)) = Some e
   \<Longrightarrow> getAmplifyError d h a dt = (Return (length h), h @ [e])"
  by (simp add: getAmplifyError_def new_def)

lemma getAmplifyError_isAmplifyError:
  "fromStderr d (message (h ! a)) = None \<Longrightarrow> isAmplifyError (h ! a)
   \<Longrightarrow> getAmplifyError d h a dt = (Return a, h)"
  by (simp add: getAmplifyError_def)

lemma getAmplifyError_cdk_return:
  "fromStderr d (message (h ! a)) = None \<Longrightarrow> \<not> isAmplifyError (h ! a)
   \<Longrightarrow> getCDKError h a = (Return (Some r), h1)
   \<Longrightarrow> getAmplifyError d h a dt = (Return r, h1)"
  by (simp add: getAmplifyError_def)

lemma getAmplifyError_cdk_throw:
  "fromStderr d (message (h ! a)) = None \<Longrightarrow> \<not> isAmplifyError (h ! a)
   \<Longrightarrow> getCDKError h a = (Throw r, h1)
   \<Longrightarrow> getAmplifyError d h a dt = (Throw r, h1)"
  by (simp add: getAmplifyError_def)

lemma getAmplifyError_node_version:
  assumes "fromStderr d (message (h ! a)) = None"
    and "\<not> isAmplifyError (h ! a)"
    and "getCDKError h a = (Return None, h)"
    and "string_includes (message (h ! a)) (js ''does not support module.register()'')"
  shows "getAmplifyError d h a dt =
     (Return (length h),
      h @ [AmplifyUserError (js ''NodeVersionNotSupportedError'')
             (js ''Unable to deploy due to unsupported node version'')
             (Some (if dt = Some (js ''branch'')
                    then js ''Upgrade the node version in your CI/CD environment. ''
                         @ js ''If you are using Amplify Hosting for your backend builds, you can add `nvm install 18.x` or `nvm install 20.x` in your `amplify.yml` before the `pipeline-deploy` command''
                    else js ''Upgrade to node `^18.19.0`, `^20.6.0,` or `>=22`''))
             (Some a)])"
  using assms by (simp add: getAmplifyError_def new_def)

lemma getAmplifyError_bundle:
  assumes "fromStderr d (message (h ! a)) = None"
    and "\<not> isAmplifyError (h ! a)"
    and "getCDKError h a = (Return None, h)"
    and "\<not> string_includes (message (h ! a)) (js ''does not support module.register()'')"
    and "string_includes (message (h ! a)) (js ''Failed to bundle asset'')"
  shows "getAmplifyError d h a dt =
     (Return (length h),
      h @ [AmplifyUserError (js ''CDKAssetBundleError'')
             (js ''CDK failed to bundle your function code'')
             (Some (js ''Check the error messages above for mode details'')) None])"
  using assms by (simp add: getAmplifyError_def new_def)

lemma getAmplifyError_scan:
  assumes "fromStderr d (message (h ! a)) = None"
    and "\<not> isAmplifyError (h ! a)"
    and "getCDKError h a = (Return None, h)"
    and "\<not> string_includes (message (h ! a)) (js ''does not support module.register()'')"
    and "\<not> string_includes (message (h ! a)) (js ''Failed to bundle asset'')"
  shows "getAmplifyError d h a dt =
     (case find (\<lambda>k. regex_test (errorRegex k) (stripANSI d (message (h ! a))))
             (getKnownErrors d) of
        Some k \<Rightarrow>
          (case extract_context h a (stripANSI d (message (h ! a))) k of
             (hm, rm, ue, h2) \<Rightarrow> (Return (length h2), h2 @ [known_error_result k hm rm ue]))
      | None \<Rightarrow>
          (Return (length h), h @ [AmplifyFault (js ''unknown'') (message (h ! a)) None None]))"
  using assms
  by (simp add: getAmplifyError_def new_def fromError_def split: option.splits prod.splits)

lemma extract_context_heap:
  assumes "extract_context h a msg k = (hm, rm, ue, h2)"
  shows "length h2 = length h"
    and "b \<noteq> a \<Longrightarrow> h2 ! b = h ! b"
    and "a < length h \<Longrightarrow> h2 ! a = (h ! a)\<lparr>message := message (h2 ! a)\<rparr>"
  using assms
  by (auto simp: extract_context_def split: option.splits if_splits prod.splits)

lemma kind_name_taxonomy: "kind_name c \<in> taxonomy"
  by (cases c; simp add: taxonomy_def)

section \<open>Evaluation of the examples\<close>

text \<open>
  The table is long; these rules let the simplifier look at one entry at a time instead
  of normalising all of them.
\<close>

lemma find_weak_cong: "P = Q \<Longrightarrow> find P xs = find Q xs"
  by simp

lemma nth_weak_cong: "i = j \<Longrightarrow> xs ! i = xs ! j"
  by simp

lemmas find_getKnownErrors = arg_cong [OF getKnownErrors_def, where f = "find P" for P]

lemmas nth_getKnownErrors = arg_cong [OF getKnownErrors_def, where f = "\<lambda>xs. xs ! i" for i]

lemmas regex_eval = regex_test_def regex_exec_def line_terminator_def js_def

lemma sample_simps:
  "fromStderr sample m = None"
  "stripANSI sample m = strip_csi 0 m"
  by (simp_all add: sample_def)

lemma plain_error_simps:
  "name (plain_error nm m) = nm"
  "message (plain_error nm m) = m"
  "\<not> isAmplifyError (plain_error nm m)"
  "\<not> isAuthenticationError (plain_error nm m)"
  "\<not> isAssemblyError (plain_error nm m)"
  "\<not> isContextProviderError (plain_error nm m)"
  by (simp_all add: isAmplifyError_def plain_error_def isAuthenticationError_def
        isAssemblyError_def isContextProviderError_def)

lemma getCDKError_plain:
  "getCDKError [plain_error (js ''Error'') m] 0 = (Return None, [plain_error (js ''Error'') m])"
  by (simp add: getCDKError_def plain_error_simps isToolkitError_def) (simp add: js_def)

lemma known_error_weak_cong:
  "known_error_ext a b c d e m = known_error_ext a b c d e m"
  by simp

lemmas scan_eval = find_getKnownErrors nth_getKnownErrors regex_eval

section \<open>The context of a match\<close>

lemma substitute_groups_unused:
  "\<forall>(key, v) \<in> set entries. \<not> string_includes hm (place_holder key)
       \<and> \<not> string_includes rm (place_holder key)
   \<Longrightarrow> substitute_groups entries (hm, rm, ue) = (hm, rm, ue)"
  by (induction entries) (auto simp: Let_def)

lemma substitute_groups_texts:
  "fst (substitute_groups entries (hm, rm, ue)) = fst (substitute_groups entries (hm, rm, ue'))
   \<and> fst (snd (substitute_groups entries (hm, rm, ue)))
       = fst (snd (substitute_groups entries (hm, rm, ue')))"
  by (induction entries arbitrary: hm rm ue ue') (auto simp: Let_def)

lemma string_match_shape:
  "string_match s r = Some ma \<Longrightarrow> array_length ma = Suc (group_count r)
     \<and> (groups ma = None \<longleftrightarrow> group_names r = [])
     \<and> (\<forall>entries. groups ma = Some entries \<longrightarrow> map fst entries = group_names r)"
  by (auto simp: string_match_def comp_def split: option.splits prod.splits if_splits)

lemma extract_context_cause:
  assumes ec: "extract_context h a msg k = (hm, rm, ue, h2)"
    and unused: "group_names (errorRegex k) = []
      \<or> (\<forall>n \<in> set (group_names (errorRegex k)).
            \<not> string_includes (humanReadableErrorMessage k) (place_holder n)
          \<and> \<not> string_includes (resolutionMessage k) (place_holder n))"
  shows "ue = Some a"
proof (cases "string_match msg (errorRegex k)")
  case None
  with ec show ?thesis by (simp add: extract_context_def)
next
  case (Some ma)
  note shape = string_match_shape[OF Some]
  show ?thesis
  proof (cases "groups ma")
    case None
    with ec Some show ?thesis
      by (simp add: extract_context_def split: if_splits)
  next
    case (Some entries)
    with shape have names: "map fst entries = group_names (errorRegex k)"
      and "group_names (errorRegex k) \<noteq> []"
      by auto
    with unused have "\<forall>n \<in> set (map fst entries).
            \<not> string_includes (humanReadableErrorMessage k) (place_holder n)
          \<and> \<not> string_includes (resolutionMessage k) (place_holder n)"
      by simp
    then have "\<forall>(key, v) \<in> set entries.
            \<not> string_includes (humanReadableErrorMessage k) (place_holder key)
          \<and> \<not> string_includes (resolutionMessage k) (place_holder key)"
      by force
    from substitute_groups_unused[OF this]
    have "substitute_groups entries (humanReadableErrorMessage k, resolutionMessage k, Some a)
        = (humanReadableErrorMessage k, resolutionMessage k, Some a)" .
    with ec \<open>string_match msg (errorRegex k) = Some ma\<close> Some show ?thesis
      by (simp add: extract_context_def split: if_splits)
  qed
qed

lemma extract_context_no_groups:
  assumes ec: "extract_context h a msg k = (hm, rm, ue, h2)"
    and "group_count (errorRegex k) = 0"
  shows "h2 = h"
proof (cases "string_match msg (errorRegex k)")
  case None
  with ec show ?thesis by (simp add: extract_context_def)
next
  case (Some ma)
  with string_match_shape[OF Some] assms show ?thesis
    by (simp add: extract_context_def)
qed

lemma extract_context_texts:
  assumes "extract_context h a msg k = (hm, rm, ue, h2)"
    and "extract_context h1 b msg k = (hm', rm', ue', h2')"
  shows "hm' = hm \<and> rm' = rm"
proof (cases "string_match msg (errorRegex k)")
  case None
  with assms show ?thesis by (simp add: extract_context_def)
next
  case (Some ma)
  show ?thesis
  proof (cases "groups ma")
    case None
    with assms Some show ?thesis
      by (simp add: extract_context_def split: if_splits)
  next
    case (Some entries)
    from substitute_groups_texts[of entries "humanReadableErrorMessage k"
        "resolutionMessage k" "Some a" "Some b"]
      assms \<open>string_match msg (errorRegex k) = Some ma\<close> Some
    show ?thesis
      by (auto simp: extract_context_def split: if_splits prod.splits)
  qed
qed

lemma find_string_match:
  assumes "find (\<lambda>k. regex_test (errorRegex k) msg) ks = Some k"
  shows "\<exists>ma. string_match msg (errorRegex k) = Some ma"
proof -
  from assms have "regex_test (errorRegex k) msg"
    by (auto simp: find_Some_iff)
  then show ?thesis
    by (auto simp: regex_test_def string_match_def)
qed

text \<open>
  The message of the caller's error after the block: the matched text when the rule has
  groups and none of them is named, the message it had otherwise.
\<close>

lemma extract_context_message:
  assumes ec: "extract_context h a msg k = (hm, rm, ue, h2)" and len: "a < length h"
    and ma: "string_match msg (errorRegex k) = Some ma"
  shows "message (h2 ! a) =
     (if 0 < group_count (errorRegex k) \<and> group_names (errorRegex k) = []
      then matched ma else message (h ! a))"
proof (cases "groups ma")
  case None
  with string_match_shape[OF ma] have "group_names (errorRegex k) = []"
    and "array_length ma = Suc (group_count (errorRegex k))"
    by simp_all
  with ec len ma None show ?thesis
    by (auto simp: extract_context_def)
next
  case (Some entries)
  with string_match_shape[OF ma] have "group_names (errorRegex k) \<noteq> []"
    by auto
  with ec ma Some show ?thesis
    by (auto simp: extract_context_def split: if_splits prod.splits)
qed

section \<open>The outcome depends on the content of the error only\<close>

lemma getCDKError_content:
  assumes "h1 ! b = h ! a"
  shows "(getCDKError h a = (Return None, h) \<and> getCDKError h1 b = (Return None, h1))
    \<or> (\<exists>e e'. getCDKError h a = (Return (Some (length h)), h @ [e])
           \<and> getCDKError h1 b = (Return (Some (length h1)), h1 @ [e'])
           \<and> name e' = name e \<and> message e' = message e \<and> resolution e' = resolution e
           \<and> amplify_classification e' = amplify_classification e)
    \<or> (\<exists>e e'. getCDKError h a = (Throw (length h), h @ [e])
           \<and> getCDKError h1 b = (Throw (length h1), h1 @ [e'])
           \<and> name e' = name e \<and> message e' = message e \<and> resolution e' = resolution e
           \<and> amplify_classification e' = amplify_classification e)"
  using assms
  by (simp add: getCDKError_def new_def AmplifyUserError_def AmplifyFault_def)

lemma observed_content:
  assumes eq: "h1 ! b = h ! a"
  shows "observed (getAmplifyError d h1 b dt) = observed (getAmplifyError d h a dt)"
proof (cases "fromStderr d (message (h ! a))")
  case (Some e)
  with eq show ?thesis
    by (simp add: getAmplifyError_fromStderr observed_def)
next
  case None
  then have fs: "fromStderr d (message (h ! a)) = None" "fromStderr d (message (h1 ! b)) = None"
    using eq by simp_all
  show ?thesis
  proof (cases "isAmplifyError (h ! a)")
    case True
    with fs eq show ?thesis
      by (simp add: getAmplifyError_isAmplifyError observed_def)
  next
    case False
    then have na: "\<not> isAmplifyError (h ! a)" "\<not> isAmplifyError (h1 ! b)"
      using eq by simp_all
    from getCDKError_content[OF eq]
    consider (none) "getCDKError h a = (Return None, h)" "getCDKError h1 b = (Return None, h1)"
      | (some) e e' where "getCDKError h a = (Return (Some (length h)), h @ [e])"
          "getCDKError h1 b = (Return (Some (length h1)), h1 @ [e'])"
          "name e' = name e" "message e' = message e" "resolution e' = resolution e"
          "amplify_classification e' = amplify_classification e"
      | (throw) e e' where "getCDKError h a = (Throw (length h), h @ [e])"
          "getCDKError h1 b = (Throw (length h1), h1 @ [e'])"
          "name e' = name e" "message e' = message e" "resolution e' = resolution e"
          "amplify_classification e' = amplify_classification e"
      by blast
    then show ?thesis
    proof cases
      case some
      show ?thesis
        using some(3-6)
        by (simp add: getAmplifyError_cdk_return[OF fs(1) na(1) some(1)]
              getAmplifyError_cdk_return[OF fs(2) na(2) some(2)] observed_def)
    next
      case throw
      show ?thesis
        using throw(3-6)
        by (simp add: getAmplifyError_cdk_throw[OF fs(1) na(1) throw(1)]
              getAmplifyError_cdk_throw[OF fs(2) na(2) throw(2)] observed_def)
    next
      case none
      show ?thesis
      proof (cases "string_includes (message (h ! a)) (js ''does not support module.register()'')")
        case True
        then have t: "string_includes (message (h1 ! b)) (js ''does not support module.register()'')"
          using eq by simp
        show ?thesis
          by (simp add: getAmplifyError_node_version[OF fs(1) na(1) none(1) True]
                getAmplifyError_node_version[OF fs(2) na(2) none(2) t] observed_def
                AmplifyUserError_def)
      next
        case nr: False
        then have nr': "\<not> string_includes (message (h1 ! b)) (js ''does not support module.register()'')"
          using eq by simp
        show ?thesis
        proof (cases "string_includes (message (h ! a)) (js ''Failed to bundle asset'')")
          case True
          then have t: "string_includes (message (h1 ! b)) (js ''Failed to bundle asset'')"
            using eq by simp
          show ?thesis
            by (simp add: getAmplifyError_bundle[OF fs(1) na(1) none(1) nr True]
                  getAmplifyError_bundle[OF fs(2) na(2) none(2) nr' t] observed_def)
        next
          case False
          then have f: "\<not> string_includes (message (h1 ! b)) (js ''Failed to bundle asset'')"
            using eq by simp
          note scan = getAmplifyError_scan[OF fs(1) na(1) none(1) nr False, where dt = dt]
          note scan' = getAmplifyError_scan[OF fs(2) na(2) none(2) nr' f, where dt = dt]
          show ?thesis
          proof (cases "find (\<lambda>k. regex_test (errorRegex k) (stripANSI d (message (h ! a)))) (getKnownErrors d)")
            case None
            with scan scan' eq show ?thesis
              by (simp add: observed_def)
          next
            case (Some k)
            obtain hm rm ue h2 where ec: "extract_context h a (stripANSI d (message (h ! a))) k = (hm, rm, ue, h2)"
              by (cases "extract_context h a (stripANSI d (message (h ! a))) k") auto
            obtain hm' rm' ue' h2' where ec': "extract_context h1 b (stripANSI d (message (h ! a))) k = (hm', rm', ue', h2')"
              by (cases "extract_context h1 b (stripANSI d (message (h ! a))) k") auto
            from extract_context_texts[OF ec ec'] have "hm' = hm" "rm' = rm" by simp_all
            with scan scan' Some ec ec' eq show ?thesis
              by (simp add: observed_def known_error_result_fields)
          qed
        qed
      qed
    qed
  qed
qed

section \<open>The examples\<close>

text \<open>The entries of the table that the examples meet.\<close>

lemma rule_0:
  "errorName (getKnownErrors d ! 0) = ExpiredTokenError"
  "group_names (errorRegex (getKnownErrors d ! 0)) = []"
  "group_count (errorRegex (getKnownErrors d ! 0)) = 1"
  by (simp_all add: nth_getKnownErrors cong: nth_weak_cong known_error_weak_cong)

lemma rule_2:
  "errorName (getKnownErrors d ! 2) = AccessDeniedError"
  "group_names (errorRegex (getKnownErrors d ! 2)) = []"
  "group_count (errorRegex (getKnownErrors d ! 2)) = 0"
  by (simp_all add: nth_getKnownErrors cong: nth_weak_cong known_error_weak_cong)

lemma rule_8:
  "errorName (getKnownErrors d ! 8) = InvalidOrCannotAssumeRoleError"
  "classification (getKnownErrors d ! 8) = ERROR"
  "humanReadableErrorMessage (getKnownErrors d ! 8)
     = js ''Role {roleArn} is invalid or cannot be assumed''"
  by (simp_all add: nth_getKnownErrors cong: nth_weak_cong known_error_weak_cong)

text \<open>\<open>Access Denied: xyz\<close>, the example of the spec for a rule without groups.\<close>

lemma access_denied_text:
  "\<not> string_includes (js ''Access Denied: xyz'') (js ''does not support module.register()'')"
  "\<not> string_includes (js ''Access Denied: xyz'') (js ''Failed to bundle asset'')"
  "strip_csi 0 (js ''Access Denied: xyz'') = js ''Access Denied: xyz''"
  by (simp_all add: string_includes_def js_def)

lemma access_denied_scan:
  "find (\<lambda>k. regex_test (errorRegex k) (js ''Access Denied: xyz'')) (getKnownErrors d)
     = Some (getKnownErrors d ! 2)"
  by (simp add: scan_eval cong: find_weak_cong nth_weak_cong known_error_weak_cong)

text \<open>\<open>Access Denied\<close> in red.\<close>

lemma coloured_text:
  "\<not> string_includes coloured_access_denied
       (js ''does not support module.register()'')"
  "\<not> string_includes coloured_access_denied
       (js ''Failed to bundle asset'')"
  "strip_csi 0 coloured_access_denied = js ''Access Denied''"
  by (simp_all add: coloured_access_denied_def string_includes_def js_def)

lemma coloured_scan:
  "find (\<lambda>k. regex_test (errorRegex k) (js ''Access Denied'')) (getKnownErrors d)
     = Some (getKnownErrors d ! 2)"
  by (simp add: scan_eval cong: find_weak_cong nth_weak_cong known_error_weak_cong)

text \<open>\<open>Failed to bundle asset\<close> with the second word in bold.\<close>

lemma interrupted_text:
  "\<not> string_includes interrupted_bundle_phrase
       (js ''does not support module.register()'')"
  "\<not> string_includes interrupted_bundle_phrase
       (js ''Failed to bundle asset'')"
  "strip_csi 0 interrupted_bundle_phrase
     = js ''Failed to bundle asset''"
  "string_includes (js ''Failed to bundle asset'') (js ''Failed to bundle asset'')"
  by (simp_all add: interrupted_bundle_phrase_def string_includes_def js_def)

lemma kind_name_bundle: "kind_name c = js ''CDKAssetBundleError'' \<Longrightarrow> c = CDKAssetBundleError"
  by (cases c; simp add: js_def)

lemma no_bundle_rule:
  "list_all (\<lambda>k. errorName k \<noteq> CDKAssetBundleError) (getKnownErrors d)"
  by (simp add: getKnownErrors_def cong: known_error_weak_cong)

text \<open>An expired token, reported after a prefix.\<close>

lemma expired_text:
  "\<not> string_includes (js ''Error: ExpiredToken: session ended'')
       (js ''does not support module.register()'')"
  "\<not> string_includes (js ''Error: ExpiredToken: session ended'') (js ''Failed to bundle asset'')"
  "strip_csi 0 (js ''Error: ExpiredToken: session ended'')
     = js ''Error: ExpiredToken: session ended''"
  by (simp_all add: string_includes_def js_def)

lemma expired_scan:
  "find (\<lambda>k. regex_test (errorRegex k) (js ''Error: ExpiredToken: session ended''))
     (getKnownErrors d) = Some (getKnownErrors d ! 0)"
  by (simp add: scan_eval cong: find_weak_cong nth_weak_cong known_error_weak_cong)

lemma expired_match:
  "string_match (js ''Error: ExpiredToken: session ended'') (errorRegex (getKnownErrors d ! 0))
     = Some \<lparr>matched = js ''ExpiredToken: session ended'', array_length = 2, groups = None\<rparr>"
  by (simp add: string_match_def scan_eval cong: nth_weak_cong known_error_weak_cong)

text \<open>A text that three rules match.\<close>

lemma three_rules_text:
  "\<not> string_includes (js ''ExpiredToken: Access Denied EACCES'')
       (js ''does not support module.register()'')"
  "\<not> string_includes (js ''ExpiredToken: Access Denied EACCES'') (js ''Failed to bundle asset'')"
  "strip_csi 0 (js ''ExpiredToken: Access Denied EACCES'')
     = js ''ExpiredToken: Access Denied EACCES''"
  by (simp_all add: string_includes_def js_def)

lemma three_rules_match:
  "regex_test (errorRegex (getKnownErrors d ! 0)) (js ''ExpiredToken: Access Denied EACCES'')"
  "regex_test (errorRegex (getKnownErrors d ! 2)) (js ''ExpiredToken: Access Denied EACCES'')"
  "regex_test (errorRegex (getKnownErrors d ! 10)) (js ''ExpiredToken: Access Denied EACCES'')"
  by (simp_all add: scan_eval cong: nth_weak_cong known_error_weak_cong)

lemma three_rules_scan:
  "find (\<lambda>k. regex_test (errorRegex k) (js ''ExpiredToken: Access Denied EACCES''))
     (getKnownErrors d) = Some (getKnownErrors d ! 0)"
  by (simp add: scan_eval cong: find_weak_cong nth_weak_cong known_error_weak_cong)

text \<open>A role whose name has two dollar signs.\<close>

lemma dollar_text:
  "\<not> string_includes (js ''Role a$$b is invalid or cannot be assumed'')
       (js ''does not support module.register()'')"
  "\<not> string_includes (js ''Role a$$b is invalid or cannot be assumed'')
       (js ''Failed to bundle asset'')"
  "strip_csi 0 (js ''Role a$$b is invalid or cannot be assumed'')
     = js ''Role a$$b is invalid or cannot be assumed''"
  by (simp_all add: string_includes_def js_def)

lemma dollar_scan:
  "find (\<lambda>k. regex_test (errorRegex k) (js ''Role a$$b is invalid or cannot be assumed''))
     (getKnownErrors d) = Some (getKnownErrors d ! 8)"
  by (simp add: scan_eval cong: find_weak_cong nth_weak_cong known_error_weak_cong)

lemma dollar_match:
  "string_match (js ''Role a$$b is invalid or cannot be assumed'')
     (errorRegex (getKnownErrors d ! 8))
     = Some \<lparr>matched = js ''Role a$$b is invalid or cannot be assumed'', array_length = 2,
              groups = Some [(''roleArn'', Some (js ''a$$b''))]\<rparr>"
  by (simp add: string_match_def capture_text_def scan_eval
        cong: nth_weak_cong known_error_weak_cong)

lemma dollar_substitute:
  "substitute_groups [(''roleArn'', Some (js ''a$$b''))]
     (js ''Role {roleArn} is invalid or cannot be assumed'', res, Some a)
     = (js ''Role a$b is invalid or cannot be assumed'',
        string_replace res (js ''{roleArn}'') (js ''a$$b''), None)"
  by (simp add: place_holder_def string_includes_def string_replace_def js_def Let_def)

lemma no_trailing_eol:
  "remove_first_match (js ''Role a$b is invalid or cannot be assumed'')
     (Seq multiLineEolRegex Eoi) = js ''Role a$b is invalid or cannot be assumed''"
  by (simp add: remove_first_match_def regex_eval)

section \<open>The claims\<close>

text \<open>
  C1. Totality of the classification: for every error and every deployment type,
  \<open>getAmplifyError\<close> returns a structured error and never throws; every branch of
  \<open>getCDKError\<close>, the branch of the native error names included, returns a value.

  The code does otherwise on the branch of the native error names: where the three
  branches before it return the error they build, this one throws it. For an error named
  \<open>TypeError\<close> that is no structured error and carries no mark of the toolkit,
  \<open>getAmplifyError\<close> throws a user error of the kind \<open>SyntaxError\<close>.
\<close>

theorem native_error_name_is_thrown:
  "getAmplifyError sample [plain_error (js ''TypeError'') (js ''x is not a function'')] 0 None =
     (Throw 1,
      [plain_error (js ''TypeError'') (js ''x is not a function''),
       \<lparr>name = js ''SyntaxError'',
        message = js ''Unable to build the Amplify backend definition.'',
        cause = Some 0,
        amplify_classification = Some ERROR,
        resolution = Some (js ''Check the Caused by error and fix any issues in your backend code''),
        toolkit_error = False, authentication_error = False,
        assembly_error = False, context_provider_error = False\<rparr>])"
proof -
  let ?h = "[plain_error (js ''TypeError'') (js ''x is not a function'')]"
  have "getCDKError ?h 0 =
     (Throw 1, ?h @ [AmplifyUserError (js ''SyntaxError'')
        (js ''Unable to build the Amplify backend definition.'')
        (Some (js ''Check the Caused by error and fix any issues in your backend code''))
        (Some 0)])"
    by (simp add: getCDKError_def plain_error_simps new_def)
  from getAmplifyError_cdk_throw[OF _ _ this, of sample None]
  show ?thesis
    by (simp add: sample_simps plain_error_simps AmplifyUserError_def)
qed

text \<open>No other branch throws: an error is thrown only for one of the four native names.\<close>

lemma throws_only_for_native_names:
  assumes "getAmplifyError d h a dt = (Throw r, h')"
  shows "fromStderr d (message (h ! a)) = None \<and> \<not> isAmplifyError (h ! a)
    \<and> name (h ! a) \<in> {js ''TypeError'', js ''TransformError'', js ''ReferenceError'',
          js ''SyntaxError''}
    \<and> getCDKError h a = (Throw r, h')"
proof (cases "fromStderr d (message (h ! a))")
  case (Some e)
  with assms show ?thesis
    by (simp add: getAmplifyError_fromStderr)
next
  case None
  show ?thesis
  proof (cases "isAmplifyError (h ! a)")
    case True
    with None assms show ?thesis
      by (simp add: getAmplifyError_isAmplifyError)
  next
    case False
    consider (none) "getCDKError h a = (Return None, h)"
      | (some) e where "getCDKError h a = (Return (Some (length h)), h @ [e])"
      | (throw) e where "getCDKError h a = (Throw (length h), h @ [e])"
      using getCDKError_cases[of h a] by blast
    then show ?thesis
    proof cases
      case some
      with assms getAmplifyError_cdk_return[OF None False some, where dt = dt]
      show ?thesis by simp
    next
      case throw
      then have "name (h ! a) \<in> {js ''TypeError'', js ''TransformError'', js ''ReferenceError'',
          js ''SyntaxError''}"
        by (auto simp: getCDKError_def new_def split: if_splits)
      with assms getAmplifyError_cdk_throw[OF None False throw, where dt = dt] None False throw
      show ?thesis by simp
    next
      case none
      obtain out where "getAmplifyError d h a dt = (Return out, snd (getAmplifyError d h a dt))"
      proof (cases "string_includes (message (h ! a)) (js ''does not support module.register()'')")
        case True
        from getAmplifyError_node_version[OF None False none True, where dt = dt] that
        show ?thesis by simp
      next
        case nr: False
        show ?thesis
        proof (cases "string_includes (message (h ! a)) (js ''Failed to bundle asset'')")
          case True
          from getAmplifyError_bundle[OF None False none nr True, where dt = dt] that
          show ?thesis by simp
        next
          case nb: False
          from getAmplifyError_scan[OF None False none nr nb, where dt = dt] that
          show ?thesis
            by (auto split: option.splits prod.splits)
        qed
      qed
      with assms show ?thesis by simp
    qed
  qed
qed

text \<open>
  C2. Closed taxonomy: for every input, the kind of the structured error that
  \<open>getAmplifyError\<close> returns is one of the kinds that the spec lists.

  This fails for an error of the toolkit's context providers: the code names the fault it
  returns \<open>CDKContextProviderFault\<close>, which the list does not have. (The type of the
  result is \<open>AmplifyError<CDKDeploymentError | string>\<close>: the code leaves the set open.)
\<close>

theorem context_provider_fault_outside_taxonomy:
  "fst (getAmplifyError sample
          [(plain_error (js ''Error'') (js ''context lookup failed''))
             \<lparr>toolkit_error := True, context_provider_error := True\<rparr>] 0 None) = Return 1
   \<and> name (snd (getAmplifyError sample
          [(plain_error (js ''Error'') (js ''context lookup failed''))
             \<lparr>toolkit_error := True, context_provider_error := True\<rparr>] 0 None) ! 1)
       = js ''CDKContextProviderFault''
   \<and> js ''CDKContextProviderFault'' \<notin> taxonomy"
proof -
  let ?e = "(plain_error (js ''Error'') (js ''context lookup failed''))
             \<lparr>toolkit_error := True, context_provider_error := True\<rparr>"
  have e: "fromStderr sample (message ([?e] ! 0)) = None" "\<not> isAmplifyError ([?e] ! 0)"
    by (simp_all add: sample_simps plain_error_def isAmplifyError_def)
  have "getCDKError [?e] 0 =
     (Return (Some 1), [?e] @ [AmplifyFault (js ''CDKContextProviderFault'')
        (js ''Unable to deploy due to CDK Context Provider Error'') None (Some 0)])"
    by (simp add: getCDKError_def plain_error_def new_def isAuthenticationError_def
          isAssemblyError_def isContextProviderError_def)
  from getAmplifyError_cdk_return[OF e this, of None]
  have "fst (getAmplifyError sample [?e] 0 None) = Return 1"
    and "name (snd (getAmplifyError sample [?e] 0 None) ! 1) = js ''CDKContextProviderFault''"
    by (simp_all add: AmplifyFault_def)
  moreover have "js ''CDKContextProviderFault'' \<notin> taxonomy"
    by (simp add: taxonomy_def js_def)
  ultimately show ?thesis by simp
qed

text \<open>
  C2, amended. For every error that is neither a structured error already nor carries a
  serialized one in its message (the kinds of those pass through unchanged), the kind of
  the error that \<open>getAmplifyError\<close> returns is one of the listed kinds or
  \<open>CDKContextProviderFault\<close>.
\<close>

theorem kind_in_taxonomy_or_context_provider_fault:
  assumes "fromStderr d (message (h ! a)) = None"
    and "\<not> isAmplifyError (h ! a)"
    and "getAmplifyError d h a dt = (Return r, h')"
  shows "name (h' ! r) \<in> taxonomy \<union> {js ''CDKContextProviderFault''}"
proof -
  note fs = assms(1) and na = assms(2)
  consider (none) "getCDKError h a = (Return None, h)"
    | (some) e where "getCDKError h a = (Return (Some (length h)), h @ [e])"
        "name e \<in> {js ''AuthenticationError'', js ''BackendBuildError'',
                    js ''CDKContextProviderFault''}"
    | (throw) e where "getCDKError h a = (Throw (length h), h @ [e])"
    using getCDKError_cases[of h a] by blast
  then show ?thesis
  proof cases
    case some
    from assms(3) getAmplifyError_cdk_return[OF fs na some(1), where dt = dt]
    have "r = length h" "h' = h @ [e]" by simp_all
    then have "name (h' ! r) = name e" by simp
    with some(2) show ?thesis
      by (auto simp: taxonomy_def)
  next
    case throw
    from assms(3) getAmplifyError_cdk_throw[OF fs na throw, where dt = dt]
    show ?thesis by simp
  next
    case none
    show ?thesis
    proof (cases "string_includes (message (h ! a)) (js ''does not support module.register()'')")
      case True
      from assms(3) getAmplifyError_node_version[OF fs na none True, where dt = dt]
      have "name (h' ! r) = js ''NodeVersionNotSupportedError''"
        by (auto simp: AmplifyUserError_def)
      then show ?thesis by (simp add: taxonomy_def)
    next
      case nr: False
      show ?thesis
      proof (cases "string_includes (message (h ! a)) (js ''Failed to bundle asset'')")
        case True
        from assms(3) getAmplifyError_bundle[OF fs na none nr True, where dt = dt]
        have "name (h' ! r) = js ''CDKAssetBundleError''"
          by (auto simp: AmplifyUserError_def)
        then show ?thesis by (simp add: taxonomy_def)
      next
        case False
        note scan = getAmplifyError_scan[OF fs na none nr False, where dt = dt]
        show ?thesis
        proof (cases "find (\<lambda>k. regex_test (errorRegex k) (stripANSI d (message (h ! a))))
                        (getKnownErrors d)")
          case None
          with scan assms(3) have "name (h' ! r) = js ''unknown''"
            by (auto simp: AmplifyFault_def)
          then show ?thesis by (simp add: taxonomy_def)
        next
          case (Some k)
          obtain hm rm ue h2
            where ec: "extract_context h a (stripANSI d (message (h ! a))) k = (hm, rm, ue, h2)"
            by (cases "extract_context h a (stripANSI d (message (h ! a))) k") auto
          from scan assms(3) Some ec
          have "r = length h2" "h' = h2 @ [known_error_result k hm rm ue]"
            by auto
          then have "name (h' ! r) = kind_name (errorName k)"
            by (simp add: known_error_result_fields)
          then show ?thesis
            using kind_name_taxonomy[of "errorName k"] by simp
        qed
      qed
    qed
  qed
qed

theorem kind_in_taxonomy_or_context_provider_fault_witness:
  "fromStderr sample
      (message ([plain_error (js ''Error'') (js ''Failed to bundle asset /tmp/fn'')] ! 0)) = None
   \<and> \<not> isAmplifyError ([plain_error (js ''Error'') (js ''Failed to bundle asset /tmp/fn'')] ! 0)
   \<and> getAmplifyError sample [plain_error (js ''Error'') (js ''Failed to bundle asset /tmp/fn'')]
         0 None =
       (Return 1,
        [plain_error (js ''Error'') (js ''Failed to bundle asset /tmp/fn''),
         AmplifyUserError (js ''CDKAssetBundleError'')
           (js ''CDK failed to bundle your function code'')
           (Some (js ''Check the error messages above for mode details'')) None])
   \<and> js ''CDKAssetBundleError'' \<in> taxonomy \<union> {js ''CDKContextProviderFault''}"
proof -
  let ?h = "[plain_error (js ''Error'') (js ''Failed to bundle asset /tmp/fn'')]"
  let ?r = "AmplifyUserError (js ''CDKAssetBundleError'')
           (js ''CDK failed to bundle your function code'')
           (Some (js ''Check the error messages above for mode details'')) None"
  have 1: "fromStderr sample (message (?h ! 0)) = None"
    by (simp add: sample_simps)
  have 2: "\<not> isAmplifyError (?h ! 0)"
    by (simp add: plain_error_simps)
  have 4: "\<not> string_includes (message (?h ! 0)) (js ''does not support module.register()'')"
    by (simp add: plain_error_simps string_includes_def js_def)
  have 5: "string_includes (message (?h ! 0)) (js ''Failed to bundle asset'')"
    by (simp add: plain_error_simps string_includes_def js_def)
  have run: "getAmplifyError sample ?h 0 None = (Return 1, ?h @ [?r])"
    using getAmplifyError_bundle[OF 1 2 getCDKError_plain 4 5, of None] by simp
  from kind_in_taxonomy_or_context_provider_fault[OF 1 2 run]
  have "js ''CDKAssetBundleError'' \<in> taxonomy \<union> {js ''CDKContextProviderFault''}"
    by (simp add: AmplifyUserError_def)
  with 1 2 run show ?thesis by simp
qed

text \<open>
  C3. Substitution of place holders: when the first matching rule has a named group whose
  name is a place holder of the rule's message or resolution, the captured text is put in
  the place of the place holder in both, and the caller's error is not attached as the
  cause; for the rule \<open>Role (?<roleArn>.*) is invalid or cannot be assumed\<close> and the message
  \<open>Role arn:aws:iam::123:role/Foo is invalid or cannot be assumed\<close> the result has this
  very message, the kind \<open>InvalidOrCannotAssumeRoleError\<close>, the severity of a user error and
  no cause.

  The code passes the captured text to \<open>String.prototype.replace\<close> as the replacement, where
  a dollar sign is special. For the message \<open>Role a$$b is invalid or cannot be assumed\<close> the
  group captures \<open>a$$b\<close>, and the message of the result is \<open>Role a$b is invalid or cannot
  be assumed\<close>: the captured text is not what was put in.
\<close>

theorem dollar_in_captured_text_is_rewritten:
  "fst (getAmplifyError sample
          [plain_error (js ''Error'') (js ''Role a$$b is invalid or cannot be assumed'')] 0 None)
     = Return 1
   \<and> name (snd (getAmplifyError sample
          [plain_error (js ''Error'') (js ''Role a$$b is invalid or cannot be assumed'')] 0 None) ! 1)
     = js ''InvalidOrCannotAssumeRoleError''
   \<and> message (snd (getAmplifyError sample
          [plain_error (js ''Error'') (js ''Role a$$b is invalid or cannot be assumed'')] 0 None) ! 1)
     = js ''Role a$b is invalid or cannot be assumed''
   \<and> cause (snd (getAmplifyError sample
          [plain_error (js ''Error'') (js ''Role a$$b is invalid or cannot be assumed'')] 0 None) ! 1)
     = None"
proof -
  let ?m = "js ''Role a$$b is invalid or cannot be assumed''"
  let ?h = "[plain_error (js ''Error'') ?m]"
  let ?k = "getKnownErrors sample ! 8"
  have ec: "extract_context ?h 0 ?m ?k =
     (js ''Role a$b is invalid or cannot be assumed'',
      string_replace (resolutionMessage ?k) (js ''{roleArn}'') (js ''a$$b''), None, ?h)"
    by (simp add: extract_context_def dollar_match rule_8 dollar_substitute no_trailing_eol
          del: substitute_groups.simps)
  have "getAmplifyError sample ?h 0 None =
     (Return 1, ?h @ [known_error_result ?k (js ''Role a$b is invalid or cannot be assumed'')
        (string_replace (resolutionMessage ?k) (js ''{roleArn}'') (js ''a$$b'')) None])"
    using getAmplifyError_scan[of sample ?h 0 None]
    by (simp add: sample_simps plain_error_simps getCDKError_plain dollar_text dollar_scan ec)
  then show ?thesis
    by (simp add: known_error_result_fields rule_8)
qed

text \<open>
  The example of the claim, where the captured text has no dollar sign, comes out as the
  claim says.
\<close>

lemma role_example:
  "fst (getAmplifyError sample
          [plain_error (js ''Error'')
             (js ''Role arn:aws:iam::123:role/Foo is invalid or cannot be assumed'')] 0 None)
     = Return 1
   \<and> observed (getAmplifyError sample
          [plain_error (js ''Error'')
             (js ''Role arn:aws:iam::123:role/Foo is invalid or cannot be assumed'')] 0 None)
     = (False, js ''InvalidOrCannotAssumeRoleError'',
        js ''Role arn:aws:iam::123:role/Foo is invalid or cannot be assumed'',
        Some (js ''Ensure the role exists and AWS credentials have an IAM policy that grants sts:AssumeRole for the role''),
        Some ERROR)
   \<and> cause (snd (getAmplifyError sample
          [plain_error (js ''Error'')
             (js ''Role arn:aws:iam::123:role/Foo is invalid or cannot be assumed'')] 0 None) ! 1)
     = None"
proof -
  let ?m = "js ''Role arn:aws:iam::123:role/Foo is invalid or cannot be assumed''"
  let ?h = "[plain_error (js ''Error'') ?m]"
  let ?k = "getKnownErrors sample ! 8"
  have raw: "\<not> string_includes ?m (js ''does not support module.register()'')"
    "\<not> string_includes ?m (js ''Failed to bundle asset'')"
    "strip_csi 0 ?m = ?m"
    by (simp_all add: string_includes_def js_def)
  have scan: "find (\<lambda>k. regex_test (errorRegex k) ?m) (getKnownErrors sample) = Some ?k"
    by (simp add: scan_eval cong: find_weak_cong nth_weak_cong known_error_weak_cong)
  have m: "string_match ?m (errorRegex ?k)
     = Some \<lparr>matched = ?m, array_length = 2,
              groups = Some [(''roleArn'', Some (js ''arn:aws:iam::123:role/Foo''))]\<rparr>"
    by (simp add: string_match_def capture_text_def scan_eval
          cong: nth_weak_cong known_error_weak_cong)
  have res: "resolutionMessage ?k = js ''Ensure the role exists and AWS credentials have an IAM policy that grants sts:AssumeRole for the role''"
    by (simp add: nth_getKnownErrors cong: nth_weak_cong known_error_weak_cong)
  have sub: "substitute_groups [(''roleArn'', Some (js ''arn:aws:iam::123:role/Foo''))]
     (js ''Role {roleArn} is invalid or cannot be assumed'', resolutionMessage ?k, Some 0)
     = (?m, resolutionMessage ?k, None)"
    unfolding res
    by (simp add: place_holder_def string_includes_def string_replace_def js_def Let_def)
  have eol: "remove_first_match ?m (Seq multiLineEolRegex Eoi) = ?m"
    by (simp add: remove_first_match_def regex_eval)
  have ec: "extract_context ?h 0 ?m ?k = (?m, resolutionMessage ?k, None, ?h)"
    by (simp add: extract_context_def m rule_8 sub eol del: substitute_groups.simps)
  have "getAmplifyError sample ?h 0 None =
     (Return 1, ?h @ [known_error_result ?k ?m (resolutionMessage ?k) None])"
    using getAmplifyError_scan[of sample ?h 0 None]
    by (simp add: sample_simps plain_error_simps getCDKError_plain raw scan ec)
  then show ?thesis
    by (simp add: observed_def known_error_result_fields rule_8 res)
qed

text \<open>
  Two runs of the scan that the examples below share: on \<open>Error: ExpiredToken: session
  ended\<close> the first rule matches, with one group and no name, and the caller's error leaves
  with the matched text as its message; on \<open>Access Denied: xyz\<close> the rule of
  \<open>AccessDeniedError\<close> matches, without a group, and the store is only extended.
\<close>

lemma expired_run:
  "getAmplifyError sample
      [plain_error (js ''Error'') (js ''Error: ExpiredToken: session ended'')] 0 None =
     (Return 1,
      [(plain_error (js ''Error'') (js ''Error: ExpiredToken: session ended''))
          \<lparr>message := js ''ExpiredToken: session ended''\<rparr>,
       known_error_result (getKnownErrors sample ! 0)
         (humanReadableErrorMessage (getKnownErrors sample ! 0))
         (resolutionMessage (getKnownErrors sample ! 0)) (Some 0)])"
proof -
  let ?m = "js ''Error: ExpiredToken: session ended''"
  let ?h = "[plain_error (js ''Error'') ?m]"
  let ?k = "getKnownErrors sample ! 0"
  have ec: "extract_context ?h 0 ?m ?k =
     (humanReadableErrorMessage ?k, resolutionMessage ?k, Some 0,
      ?h[0 := (?h ! 0)\<lparr>message := js ''ExpiredToken: session ended''\<rparr>])"
    by (simp add: extract_context_def expired_match)
  show ?thesis
    using getAmplifyError_scan[of sample ?h 0 None]
    by (simp add: sample_simps plain_error_simps getCDKError_plain expired_text expired_scan ec)
qed

lemma access_denied_run:
  "getAmplifyError sample [plain_error (js ''Error'') (js ''Access Denied: xyz'')] 0 None =
     (Return 1,
      [plain_error (js ''Error'') (js ''Access Denied: xyz''),
       known_error_result (getKnownErrors sample ! 2)
         (humanReadableErrorMessage (getKnownErrors sample ! 2))
         (resolutionMessage (getKnownErrors sample ! 2)) (Some 0)])"
proof -
  let ?m = "js ''Access Denied: xyz''"
  let ?h = "[plain_error (js ''Error'') ?m]"
  let ?k = "getKnownErrors sample ! 2"
  have m: "string_match ?m (errorRegex ?k) = Some \<lparr>matched = js ''Access Denied'',
      array_length = 1, groups = None\<rparr>"
    by (simp add: string_match_def scan_eval cong: nth_weak_cong known_error_weak_cong)
  have ec: "extract_context ?h 0 ?m ?k =
     (humanReadableErrorMessage ?k, resolutionMessage ?k, Some 0, ?h)"
    by (simp add: extract_context_def m)
  show ?thesis
    using getAmplifyError_scan[of sample ?h 0 None]
    by (simp add: sample_simps plain_error_simps getCDKError_plain access_denied_text
          access_denied_scan ec)
qed

text \<open>
  C4. Purity with respect to shared state and to the caller's state: a call to
  \<open>getAmplifyError\<close> never mutates the table of rules that another call sees (two calls
  with the same message and context give the same kind, message, resolution and
  severity), and it never mutates the caller's error: the message of the input error is
  the same after the call as before it, for every input.

  The second part fails: when the matching rule has groups but no named group, the code
  assigns the matched text to the message of \<open>underlyingError\<close>, which is the caller's
  error. After the call on the message \<open>Error: ExpiredToken: session ended\<close> the message of
  the caller's error is \<open>ExpiredToken: session ended\<close>.
\<close>

theorem input_message_overwritten:
  "message ([plain_error (js ''Error'') (js ''Error: ExpiredToken: session ended'')] ! 0)
     = js ''Error: ExpiredToken: session ended''
   \<and> message (snd (getAmplifyError sample
          [plain_error (js ''Error'') (js ''Error: ExpiredToken: session ended'')] 0 None) ! 0)
     = js ''ExpiredToken: session ended''
   \<and> js ''ExpiredToken: session ended'' \<noteq> js ''Error: ExpiredToken: session ended''"
proof -
  have "js ''ExpiredToken: session ended'' \<noteq> js ''Error: ExpiredToken: session ended''"
    by (simp add: js_def)
  then show ?thesis
    by (simp add: expired_run plain_error_simps)
qed

text \<open>
  C4, amended. A call changes no other error of the store and no field of the input error
  but its message. When the call reaches the scan of the table and the first matching rule
  has groups none of which is named, the message of the input error is overwritten: after
  the call it is the text that the rule matched. In every other case the message of the
  input error is the same after the call as before. And the table is built anew by every
  call: a later call on an error with the content that the input had, under the same
  context, shows the same outcome (thrown or returned, kind, message, resolution,
  severity).

  The call reaches the scan when no serialized error is found in the message, the error is
  no structured error, \<open>getCDKError\<close> passes it on and the message contains neither of the
  two phrases tested before the scan.
\<close>

theorem effects_on_the_store:
  assumes "a < length h" and "getAmplifyError d h a dt = (out, h')"
  shows "(\<forall>b<length h. b \<noteq> a \<longrightarrow> h' ! b = h ! b)
    \<and> h' ! a = (h ! a)\<lparr>message := message (h' ! a)\<rparr>
    \<and> (\<forall>k. fromStderr d (message (h ! a)) = None \<and> \<not> isAmplifyError (h ! a)
          \<and> getCDKError h a = (Return None, h)
          \<and> \<not> string_includes (message (h ! a)) (js ''does not support module.register()'')
          \<and> \<not> string_includes (message (h ! a)) (js ''Failed to bundle asset'')
          \<and> find (\<lambda>k. regex_test (errorRegex k) (stripANSI d (message (h ! a))))
                (getKnownErrors d) = Some k
          \<and> 0 < group_count (errorRegex k) \<and> group_names (errorRegex k) = []
        \<longrightarrow> (\<exists>ma. string_match (stripANSI d (message (h ! a))) (errorRegex k) = Some ma
                \<and> message (h' ! a) = matched ma))
    \<and> (\<not> (fromStderr d (message (h ! a)) = None \<and> \<not> isAmplifyError (h ! a)
          \<and> getCDKError h a = (Return None, h)
          \<and> \<not> string_includes (message (h ! a)) (js ''does not support module.register()'')
          \<and> \<not> string_includes (message (h ! a)) (js ''Failed to bundle asset'')
          \<and> (\<exists>k. find (\<lambda>k. regex_test (errorRegex k) (stripANSI d (message (h ! a))))
                    (getKnownErrors d) = Some k
                \<and> 0 < group_count (errorRegex k) \<and> group_names (errorRegex k) = []))
        \<longrightarrow> message (h' ! a) = message (h ! a))
    \<and> (\<forall>b. h' ! b = h ! a \<longrightarrow> observed (getAmplifyError d h' b dt) = observed (out, h'))"
proof -
  let ?msg = "stripANSI d (message (h ! a))"
  let ?scan = "find (\<lambda>k. regex_test (errorRegex k) ?msg) (getKnownErrors d)"
  let ?reach = "fromStderr d (message (h ! a)) = None \<and> \<not> isAmplifyError (h ! a)
          \<and> getCDKError h a = (Return None, h)
          \<and> \<not> string_includes (message (h ! a)) (js ''does not support module.register()'')
          \<and> \<not> string_includes (message (h ! a)) (js ''Failed to bundle asset'')"
  have obs: "\<forall>b. h' ! b = h ! a \<longrightarrow> observed (getAmplifyError d h' b dt) = observed (out, h')"
    using observed_content[of h' _ h a d dt] assms(2) by simp
  have early: "(\<forall>b<length h. b \<noteq> a \<longrightarrow> h' ! b = h ! b)
      \<and> h' ! a = (h ! a)\<lparr>message := message (h' ! a)\<rparr>
      \<and> message (h' ! a) = message (h ! a)" if "\<not> ?reach"
  proof (cases "fromStderr d (message (h ! a))")
    case (Some e)
    with assms show ?thesis
      by (auto simp: getAmplifyError_fromStderr nth_append)
  next
    case None
    show ?thesis
    proof (cases "isAmplifyError (h ! a)")
      case True
      with None assms show ?thesis
        by (auto simp: getAmplifyError_isAmplifyError)
    next
      case False
      consider (none) "getCDKError h a = (Return None, h)"
        | (some) e where "getCDKError h a = (Return (Some (length h)), h @ [e])"
        | (throw) e where "getCDKError h a = (Throw (length h), h @ [e])"
        using getCDKError_cases[of h a] by blast
      then show ?thesis
      proof cases
        case some
        with assms getAmplifyError_cdk_return[OF None False some, where dt = dt]
        show ?thesis by (auto simp: nth_append)
      next
        case throw
        with assms getAmplifyError_cdk_throw[OF None False throw, where dt = dt]
        show ?thesis by (auto simp: nth_append)
      next
        case none
        show ?thesis
        proof (cases "string_includes (message (h ! a)) (js ''does not support module.register()'')")
          case True
          with assms getAmplifyError_node_version[OF None False none True, where dt = dt]
          show ?thesis by (auto simp: nth_append)
        next
          case nr: False
          with that None False none
          have b: "string_includes (message (h ! a)) (js ''Failed to bundle asset'')"
            by simp
          with assms getAmplifyError_bundle[OF None False none nr b, where dt = dt]
          show ?thesis by (auto simp: nth_append)
        qed
      qed
    qed
  qed
  have scanned: "(\<forall>b<length h. b \<noteq> a \<longrightarrow> h' ! b = h ! b)
      \<and> h' ! a = (h ! a)\<lparr>message := message (h' ! a)\<rparr>
      \<and> (case ?scan of
            None \<Rightarrow> message (h' ! a) = message (h ! a)
          | Some k \<Rightarrow> \<exists>ma. string_match ?msg (errorRegex k) = Some ma
              \<and> message (h' ! a) =
                  (if 0 < group_count (errorRegex k) \<and> group_names (errorRegex k) = []
                   then matched ma else message (h ! a)))" if reach: "?reach"
  proof -
    from reach have fs: "fromStderr d (message (h ! a)) = None"
      and na: "\<not> isAmplifyError (h ! a)"
      and none: "getCDKError h a = (Return None, h)"
      and nr: "\<not> string_includes (message (h ! a)) (js ''does not support module.register()'')"
      and nb: "\<not> string_includes (message (h ! a)) (js ''Failed to bundle asset'')"
      by simp_all
    note scan = getAmplifyError_scan[OF fs na none nr nb, where dt = dt]
    show ?thesis
    proof (cases ?scan)
      case None
      with scan assms show ?thesis by (auto simp: nth_append)
    next
      case (Some k)
      obtain hm rm ue h2
        where ec: "extract_context h a ?msg k = (hm, rm, ue, h2)"
        by (cases "extract_context h a ?msg k") auto
      from scan assms(2) Some ec have h': "h' = h2 @ [known_error_result k hm rm ue]"
        by simp
      note hp = extract_context_heap[OF ec]
      from find_string_match[OF Some] obtain ma
        where ma: "string_match ?msg (errorRegex k) = Some ma" by blast
      note msg = extract_context_message[OF ec assms(1) ma]
      have same: "h' ! a = h2 ! a" "\<forall>b<length h. h' ! b = h2 ! b"
        using h' hp(1) assms(1) by (simp_all add: nth_append)
      have "\<forall>b<length h. b \<noteq> a \<longrightarrow> h' ! b = h ! b"
        using same(2) hp(2) by simp
      moreover have "h' ! a = (h ! a)\<lparr>message := message (h' ! a)\<rparr>"
        using same(1) hp(3)[OF assms(1)] by simp
      moreover have "\<exists>ma. string_match ?msg (errorRegex k) = Some ma
              \<and> message (h' ! a) =
                  (if 0 < group_count (errorRegex k) \<and> group_names (errorRegex k) = []
                   then matched ma else message (h ! a))"
        using ma msg same(1) by simp
      ultimately show ?thesis
        using Some by simp
    qed
  qed
  have others: "\<forall>b<length h. b \<noteq> a \<longrightarrow> h' ! b = h ! b"
  proof (cases ?reach)
    case True
    then show ?thesis by (rule scanned[THEN conjunct1])
  next
    case False
    then show ?thesis by (rule early[THEN conjunct1])
  qed
  have fields: "h' ! a = (h ! a)\<lparr>message := message (h' ! a)\<rparr>"
  proof (cases ?reach)
    case True
    then show ?thesis by (rule scanned[THEN conjunct2, THEN conjunct1])
  next
    case False
    then show ?thesis by (rule early[THEN conjunct2, THEN conjunct1])
  qed
  have overwritten: "\<exists>ma. string_match ?msg (errorRegex k) = Some ma
      \<and> message (h' ! a) = matched ma"
    if "?reach" and "?scan = Some k" and "0 < group_count (errorRegex k)"
      and "group_names (errorRegex k) = []" for k
    using scanned[OF that(1), THEN conjunct2, THEN conjunct2] that(2,3,4)
    by simp
  have kept: "message (h' ! a) = message (h ! a)"
    if "\<not> (?reach \<and> (\<exists>k. ?scan = Some k \<and> 0 < group_count (errorRegex k)
          \<and> group_names (errorRegex k) = []))"
  proof (cases ?reach)
    case False
    then show ?thesis by (rule early[THEN conjunct2, THEN conjunct2])
  next
    case True
    note c = scanned[OF True, THEN conjunct2, THEN conjunct2]
    show ?thesis
    proof (cases ?scan)
      case None
      with c show ?thesis by simp
    next
      case (Some k)
      with that True have "\<not> (0 < group_count (errorRegex k) \<and> group_names (errorRegex k) = [])"
        by blast
      with c Some show ?thesis by auto
    qed
  qed
  show ?thesis
  proof (intro conjI)
    show "\<forall>b<length h. b \<noteq> a \<longrightarrow> h' ! b = h ! b"
      by (rule others)
    show "h' ! a = (h ! a)\<lparr>message := message (h' ! a)\<rparr>"
      by (rule fields)
    show "\<forall>k. fromStderr d (message (h ! a)) = None \<and> \<not> isAmplifyError (h ! a)
          \<and> getCDKError h a = (Return None, h)
          \<and> \<not> string_includes (message (h ! a)) (js ''does not support module.register()'')
          \<and> \<not> string_includes (message (h ! a)) (js ''Failed to bundle asset'')
          \<and> find (\<lambda>k. regex_test (errorRegex k) (stripANSI d (message (h ! a))))
                (getKnownErrors d) = Some k
          \<and> 0 < group_count (errorRegex k) \<and> group_names (errorRegex k) = []
        \<longrightarrow> (\<exists>ma. string_match (stripANSI d (message (h ! a))) (errorRegex k) = Some ma
                \<and> message (h' ! a) = matched ma)"
      using overwritten by blast
    show "\<not> (fromStderr d (message (h ! a)) = None \<and> \<not> isAmplifyError (h ! a)
          \<and> getCDKError h a = (Return None, h)
          \<and> \<not> string_includes (message (h ! a)) (js ''does not support module.register()'')
          \<and> \<not> string_includes (message (h ! a)) (js ''Failed to bundle asset'')
          \<and> (\<exists>k. find (\<lambda>k. regex_test (errorRegex k) (stripANSI d (message (h ! a))))
                    (getKnownErrors d) = Some k
                \<and> 0 < group_count (errorRegex k) \<and> group_names (errorRegex k) = []))
        \<longrightarrow> message (h' ! a) = message (h ! a)"
      using kept by blast
    show "\<forall>b. h' ! b = h ! a \<longrightarrow> observed (getAmplifyError d h' b dt) = observed (out, h')"
      by (rule obs)
  qed
qed

theorem effects_on_the_store_witness:
  "0 < length [plain_error (js ''Error'') (js ''Error: ExpiredToken: session ended'')]
   \<and> fromStderr sample
        (message ([plain_error (js ''Error'') (js ''Error: ExpiredToken: session ended'')] ! 0))
       = None
   \<and> \<not> isAmplifyError
          ([plain_error (js ''Error'') (js ''Error: ExpiredToken: session ended'')] ! 0)
   \<and> getCDKError [plain_error (js ''Error'') (js ''Error: ExpiredToken: session ended'')] 0
       = (Return None, [plain_error (js ''Error'') (js ''Error: ExpiredToken: session ended'')])
   \<and> find (\<lambda>k. regex_test (errorRegex k)
              (stripANSI sample (js ''Error: ExpiredToken: session ended'')))
        (getKnownErrors sample) = Some (getKnownErrors sample ! 0)
   \<and> 0 < group_count (errorRegex (getKnownErrors sample ! 0))
   \<and> group_names (errorRegex (getKnownErrors sample ! 0)) = []
   \<and> message (snd (getAmplifyError sample
          [plain_error (js ''Error'') (js ''Error: ExpiredToken: session ended'')] 0 None) ! 0)
       = js ''ExpiredToken: session ended''
   \<and> 0 < length [plain_error (js ''Error'') (js ''Access Denied: xyz'')]
   \<and> find (\<lambda>k. regex_test (errorRegex k) (stripANSI sample (js ''Access Denied: xyz'')))
        (getKnownErrors sample) = Some (getKnownErrors sample ! 2)
   \<and> group_count (errorRegex (getKnownErrors sample ! 2)) = 0
   \<and> message (snd (getAmplifyError sample
          [plain_error (js ''Error'') (js ''Access Denied: xyz'')] 0 None) ! 0)
       = js ''Access Denied: xyz''
   \<and> observed (getAmplifyError sample
        [plain_error (js ''Error'') (js ''Access Denied: xyz''),
         known_error_result (getKnownErrors sample ! 2)
           (humanReadableErrorMessage (getKnownErrors sample ! 2))
           (resolutionMessage (getKnownErrors sample ! 2)) (Some 0)] 0 None)
       = (False, js ''AccessDeniedError'',
          humanReadableErrorMessage (getKnownErrors sample ! 2),
          Some (resolutionMessage (getKnownErrors sample ! 2)),
          Some (classification (getKnownErrors sample ! 2)))"
proof -
  let ?me = "js ''Error: ExpiredToken: session ended''"
  let ?he = "[plain_error (js ''Error'') ?me]"
  let ?m = "js ''Access Denied: xyz''"
  let ?h = "[plain_error (js ''Error'') ?m]"
  let ?k = "getKnownErrors sample ! 2"
  let ?r = "known_error_result ?k (humanReadableErrorMessage ?k) (resolutionMessage ?k) (Some 0)"
  let ?h2 = "[plain_error (js ''Error'') ?m, ?r]"
  have len: "0 < length ?he" "0 < length ?h" by simp_all
  have e1: "fromStderr sample (message (?he ! 0)) = None"
    by (simp add: sample_simps)
  have e2: "\<not> isAmplifyError (?he ! 0)"
    by (simp add: plain_error_simps)
  have e3: "getCDKError ?he 0 = (Return None, ?he)"
    by (rule getCDKError_plain)
  have e4: "\<not> string_includes (message (?he ! 0)) (js ''does not support module.register()'')"
    "\<not> string_includes (message (?he ! 0)) (js ''Failed to bundle asset'')"
    by (simp_all add: plain_error_simps expired_text)
  have e5: "find (\<lambda>k. regex_test (errorRegex k) (stripANSI sample (message (?he ! 0))))
        (getKnownErrors sample) = Some (getKnownErrors sample ! 0)"
    by (simp add: plain_error_simps sample_simps expired_text expired_scan)
  have e6: "0 < group_count (errorRegex (getKnownErrors sample ! 0))"
    "group_names (errorRegex (getKnownErrors sample ! 0)) = []"
    by (simp_all add: rule_0)
  have e7: "stripANSI sample (message (?he ! 0)) = ?me"
    by (simp add: plain_error_simps sample_simps expired_text)
  from effects_on_the_store[OF len(1), where d = sample and dt = None
      and out = "fst (getAmplifyError sample ?he 0 None)"
      and h' = "snd (getAmplifyError sample ?he 0 None)"]
  have "\<forall>k. fromStderr sample (message (?he ! 0)) = None \<and> \<not> isAmplifyError (?he ! 0)
          \<and> getCDKError ?he 0 = (Return None, ?he)
          \<and> \<not> string_includes (message (?he ! 0)) (js ''does not support module.register()'')
          \<and> \<not> string_includes (message (?he ! 0)) (js ''Failed to bundle asset'')
          \<and> find (\<lambda>k. regex_test (errorRegex k) (stripANSI sample (message (?he ! 0))))
                (getKnownErrors sample) = Some k
          \<and> 0 < group_count (errorRegex k) \<and> group_names (errorRegex k) = []
        \<longrightarrow> (\<exists>ma. string_match (stripANSI sample (message (?he ! 0))) (errorRegex k) = Some ma
                \<and> message (snd (getAmplifyError sample ?he 0 None) ! 0) = matched ma)"
    by simp
  with e1 e2 e3 e4 e5 e6
  have "\<exists>ma. string_match (stripANSI sample (message (?he ! 0)))
               (errorRegex (getKnownErrors sample ! 0)) = Some ma
      \<and> message (snd (getAmplifyError sample ?he 0 None) ! 0) = matched ma"
    by blast
  then have overwritten:
    "message (snd (getAmplifyError sample ?he 0 None) ! 0) = js ''ExpiredToken: session ended''"
    by (auto simp: plain_error_simps sample_simps expired_text expired_match)
  have a5: "find (\<lambda>k. regex_test (errorRegex k) (stripANSI sample ?m))
        (getKnownErrors sample) = Some ?k"
    by (simp add: sample_simps access_denied_text access_denied_scan)
  have a6: "group_count (errorRegex ?k) = 0"
    by (simp add: rule_2)
  have a7: "stripANSI sample (message (?h ! 0)) = ?m"
    by (simp add: plain_error_simps sample_simps access_denied_text)
  note run = access_denied_run
  note eff = effects_on_the_store[OF len(2) run]
  from eff have "\<not> (fromStderr sample (message (?h ! 0)) = None \<and> \<not> isAmplifyError (?h ! 0)
          \<and> getCDKError ?h 0 = (Return None, ?h)
          \<and> \<not> string_includes (message (?h ! 0)) (js ''does not support module.register()'')
          \<and> \<not> string_includes (message (?h ! 0)) (js ''Failed to bundle asset'')
          \<and> (\<exists>k. find (\<lambda>k. regex_test (errorRegex k) (stripANSI sample (message (?h ! 0))))
                    (getKnownErrors sample) = Some k
                \<and> 0 < group_count (errorRegex k) \<and> group_names (errorRegex k) = []))
        \<longrightarrow> message (?h2 ! 0) = message (?h ! 0)"
    by simp
  moreover have "\<not> (\<exists>k. find (\<lambda>k. regex_test (errorRegex k) (stripANSI sample (message (?h ! 0))))
                    (getKnownErrors sample) = Some k
                \<and> 0 < group_count (errorRegex k) \<and> group_names (errorRegex k) = [])"
    using a5 a6 by (simp add: plain_error_simps)
  ultimately have "message (?h2 ! 0) = message (?h ! 0)"
    by blast
  then have unchanged: "message (snd (getAmplifyError sample ?h 0 None) ! 0) = ?m"
    by (simp add: run plain_error_simps)
  from eff
  have "\<forall>b. ?h2 ! b = ?h ! 0
      \<longrightarrow> observed (getAmplifyError sample ?h2 b None) = observed (Return 1, ?h2)"
    by blast
  then have "observed (getAmplifyError sample ?h2 0 None) = observed (Return 1, ?h2)"
    by simp
  then have obs: "observed (getAmplifyError sample ?h2 0 None)
       = (False, js ''AccessDeniedError'', humanReadableErrorMessage ?k,
          Some (resolutionMessage ?k), Some (classification ?k))"
    by (simp add: observed_def known_error_result_fields rule_2)
  have e5': "find (\<lambda>k. regex_test (errorRegex k) (stripANSI sample ?me))
        (getKnownErrors sample) = Some (getKnownErrors sample ! 0)"
    by (simp add: sample_simps expired_text expired_scan)
  from len e1 e2 e3 e5' e6 overwritten a5 a6 unchanged obs show ?thesis
    by simp
qed

text \<open>
  C5. The first match wins: the table is scanned in the order of its declaration, and the
  rule applied is the first whose regular expression matches the stripped message; for
  any two rules R1 before R2 and any message that both match, the returned error has the
  kind of R1, not of R2.

  The last part fails when a rule before R1 matches as well. The message
  \<open>ExpiredToken: Access Denied EACCES\<close> matches the rule of \<open>Access Denied\<close> (the third) and
  the rule of \<open>EACCES\<close> (the eleventh), and the result has the kind of the first rule of
  the table, \<open>ExpiredTokenError\<close>.
\<close>

theorem earlier_rule_shadows_both:
  "regex_test (errorRegex (getKnownErrors sample ! 2)) (js ''ExpiredToken: Access Denied EACCES'')
   \<and> regex_test (errorRegex (getKnownErrors sample ! 10)) (js ''ExpiredToken: Access Denied EACCES'')
   \<and> kind_name (errorName (getKnownErrors sample ! 2)) = js ''AccessDeniedError''
   \<and> fst (getAmplifyError sample
        [plain_error (js ''Error'') (js ''ExpiredToken: Access Denied EACCES'')] 0 None) = Return 1
   \<and> name (snd (getAmplifyError sample
        [plain_error (js ''Error'') (js ''ExpiredToken: Access Denied EACCES'')] 0 None) ! 1)
       = js ''ExpiredTokenError''
   \<and> js ''ExpiredTokenError'' \<noteq> js ''AccessDeniedError''"
proof -
  let ?m = "js ''ExpiredToken: Access Denied EACCES''"
  let ?h = "[plain_error (js ''Error'') ?m]"
  let ?k = "getKnownErrors sample ! 0"
  obtain hm rm ue h2 where ec: "extract_context ?h 0 ?m ?k = (hm, rm, ue, h2)"
    by (cases "extract_context ?h 0 ?m ?k") auto
  from extract_context_heap(1)[OF ec] have len: "length h2 = 1" by simp
  have "getAmplifyError sample ?h 0 None = (Return 1, h2 @ [known_error_result ?k hm rm ue])"
    using getAmplifyError_scan[of sample ?h 0 None]
    by (simp add: sample_simps plain_error_simps getCDKError_plain three_rules_text
          three_rules_scan ec len)
  moreover have "js ''ExpiredTokenError'' \<noteq> js ''AccessDeniedError''"
    by (simp add: js_def)
  ultimately show ?thesis
    using len by (simp add: three_rules_match known_error_result_fields rule_0 rule_2 nth_append)
qed

text \<open>
  C5, amended. For an input that reaches the scan (no earlier branch applies), the rule
  applied is the first rule of the table, in the order of its declaration, whose regular
  expression matches the stripped message: when R1 stands before R2 and both match, the
  result has the kind and severity of the first matching rule, which is R1 or a rule
  before R1.
\<close>

theorem first_matching_rule_wins:
  assumes "fromStderr d (message (h ! a)) = None"
    and "\<not> isAmplifyError (h ! a)"
    and "getCDKError h a = (Return None, h)"
    and "\<not> string_includes (message (h ! a)) (js ''does not support module.register()'')"
    and "\<not> string_includes (message (h ! a)) (js ''Failed to bundle asset'')"
    and "i1 < i2" and "i2 < length (getKnownErrors d)"
    and "regex_test (errorRegex (getKnownErrors d ! i1)) (stripANSI d (message (h ! a)))"
    and "regex_test (errorRegex (getKnownErrors d ! i2)) (stripANSI d (message (h ! a)))"
    and "getAmplifyError d h a dt = (out, h')"
  shows "\<exists>i r. i \<le> i1
     \<and> regex_test (errorRegex (getKnownErrors d ! i)) (stripANSI d (message (h ! a)))
     \<and> (\<forall>j<i. \<not> regex_test (errorRegex (getKnownErrors d ! j)) (stripANSI d (message (h ! a))))
     \<and> out = Return r
     \<and> name (h' ! r) = kind_name (errorName (getKnownErrors d ! i))
     \<and> amplify_classification (h' ! r) = Some (classification (getKnownErrors d ! i))"
proof -
  let ?P = "\<lambda>k. regex_test (errorRegex k) (stripANSI d (message (h ! a)))"
  let ?xs = "getKnownErrors d"
  from assms(6,7,8) have "\<exists>x \<in> set ?xs. ?P x"
    by (metis less_trans nth_mem)
  then obtain k where fk: "find ?P ?xs = Some k"
    by (cases "find ?P ?xs") (auto simp: find_None_iff)
  then obtain i where i: "i < length ?xs" "?P (?xs ! i)" "k = ?xs ! i" "\<forall>j<i. \<not> ?P (?xs ! j)"
    by (auto simp: find_Some_iff)
  have "i \<le> i1"
    using i(4) assms(8) by (meson not_le_imp_less)
  obtain hm rm ue h2
    where ec: "extract_context h a (stripANSI d (message (h ! a))) k = (hm, rm, ue, h2)"
    by (cases "extract_context h a (stripANSI d (message (h ! a))) k") auto
  from getAmplifyError_scan[OF assms(1-5), where dt = dt] assms(10) fk ec
  have "out = Return (length h2)" "h' = h2 @ [known_error_result k hm rm ue]"
    by simp_all
  then have "out = Return (length h2) \<and> name (h' ! length h2) = kind_name (errorName k)
      \<and> amplify_classification (h' ! length h2) = Some (classification k)"
    by (simp add: known_error_result_fields)
  with i \<open>i \<le> i1\<close> show ?thesis
    by blast
qed

theorem first_matching_rule_wins_witness:
  "fromStderr sample
      (message ([plain_error (js ''Error'') (js ''ExpiredToken: Access Denied EACCES'')] ! 0))
     = None
   \<and> \<not> isAmplifyError ([plain_error (js ''Error'') (js ''ExpiredToken: Access Denied EACCES'')] ! 0)
   \<and> getCDKError [plain_error (js ''Error'') (js ''ExpiredToken: Access Denied EACCES'')] 0
       = (Return None, [plain_error (js ''Error'') (js ''ExpiredToken: Access Denied EACCES'')])
   \<and> \<not> string_includes
         (message ([plain_error (js ''Error'') (js ''ExpiredToken: Access Denied EACCES'')] ! 0))
         (js ''does not support module.register()'')
   \<and> \<not> string_includes
         (message ([plain_error (js ''Error'') (js ''ExpiredToken: Access Denied EACCES'')] ! 0))
         (js ''Failed to bundle asset'')
   \<and> (0::nat) < 2 \<and> 2 < length (getKnownErrors sample)
   \<and> regex_test (errorRegex (getKnownErrors sample ! 0))
        (stripANSI sample
           (message ([plain_error (js ''Error'') (js ''ExpiredToken: Access Denied EACCES'')] ! 0)))
   \<and> regex_test (errorRegex (getKnownErrors sample ! 2))
        (stripANSI sample
           (message ([plain_error (js ''Error'') (js ''ExpiredToken: Access Denied EACCES'')] ! 0)))
   \<and> (\<exists>r. fst (getAmplifyError sample
               [plain_error (js ''Error'') (js ''ExpiredToken: Access Denied EACCES'')] 0 None)
             = Return r
          \<and> name (snd (getAmplifyError sample
               [plain_error (js ''Error'') (js ''ExpiredToken: Access Denied EACCES'')] 0 None) ! r)
             = js ''ExpiredTokenError'')"
proof -
  let ?m = "js ''ExpiredToken: Access Denied EACCES''"
  let ?h = "[plain_error (js ''Error'') ?m]"
  have 1: "fromStderr sample (message (?h ! 0)) = None"
    by (simp add: sample_simps)
  have 2: "\<not> isAmplifyError (?h ! 0)"
    by (simp add: plain_error_simps)
  have 4: "\<not> string_includes (message (?h ! 0)) (js ''does not support module.register()'')"
    "\<not> string_includes (message (?h ! 0)) (js ''Failed to bundle asset'')"
    by (simp_all add: plain_error_simps three_rules_text)
  have 6: "(0::nat) < 2" by simp
  have 7: "2 < length (getKnownErrors sample)"
    by (simp add: getKnownErrors_def)
  have 8: "regex_test (errorRegex (getKnownErrors sample ! 0)) (stripANSI sample (message (?h ! 0)))"
    "regex_test (errorRegex (getKnownErrors sample ! 2)) (stripANSI sample (message (?h ! 0)))"
    by (simp_all add: sample_simps plain_error_simps three_rules_text three_rules_match)
  have 10: "getAmplifyError sample ?h 0 None
     = (fst (getAmplifyError sample ?h 0 None), snd (getAmplifyError sample ?h 0 None))"
    by simp
  from first_matching_rule_wins[OF 1 2 getCDKError_plain 4 6 7 8 10]
  have "\<exists>r. fst (getAmplifyError sample ?h 0 None) = Return r
      \<and> name (snd (getAmplifyError sample ?h 0 None) ! r) = js ''ExpiredTokenError''"
    by (auto simp: rule_0)
  with 1 2 getCDKError_plain 4 6 7 8 show ?thesis
    by simp
qed

text \<open>
  C6. Idempotence on structured input: if the input is a structured error already (by the
  capability check), \<open>getAmplifyError\<close> returns that same error unchanged, so classifying
  the result of a classification returns it as it is.

  This fails when the message of the structured error carries a serialized error: the
  search for one comes first, and what it rebuilds is returned instead of the input.
\<close>

theorem embedded_error_precedes_passthrough:
  "isAmplifyError (AmplifyUserError (js ''DeployError'')
       (js ''stderr of the child: serializedError: e30='') None None)
   \<and> getAmplifyError embedding
        [AmplifyUserError (js ''DeployError'')
           (js ''stderr of the child: serializedError: e30='') None None] 0 None =
       (Return 1,
        [AmplifyUserError (js ''DeployError'')
           (js ''stderr of the child: serializedError: e30='') None None,
         AmplifyFault (js ''ChildProcessFault'') (js ''the child process failed'') None None])
   \<and> Return 1 \<noteq> (Return 0 :: addr completion)"
proof -
  let ?e = "AmplifyUserError (js ''DeployError'')
       (js ''stderr of the child: serializedError: e30='') None None"
  have "string_includes (message ?e) (js ''serializedError'')"
    by (simp add: AmplifyUserError_def string_includes_def js_def)
  then have "fromStderr embedding (message ([?e] ! 0)) =
      Some (AmplifyFault (js ''ChildProcessFault'') (js ''the child process failed'') None None)"
    by (simp add: embedding_def)
  from getAmplifyError_fromStderr[OF this, of None]
  show ?thesis
    by (simp add: isAmplifyError_def AmplifyUserError_def)
qed

text \<open>
  C6, amended. If the input is a structured error already and its message carries no
  serialized error, \<open>getAmplifyError\<close> returns that same error and leaves the store as it
  is. So, when \<open>fromStderr\<close> only yields structured errors, an error that \<open>getAmplifyError\<close>
  returned is returned again as it is, provided its message carries no serialized error.
\<close>

theorem amplify_error_passthrough:
  "(isAmplifyError (h ! a) \<and> fromStderr d (message (h ! a)) = None
      \<longrightarrow> getAmplifyError d h a dt = (Return a, h))
   \<and> ((\<forall>m e. fromStderr d m = Some e \<longrightarrow> isAmplifyError e)
        \<and> getAmplifyError d h a dt = (Return r, h')
        \<and> fromStderr d (message (h' ! r)) = None
      \<longrightarrow> getAmplifyError d h' r dt = (Return r, h'))"
proof (intro conjI impI)
  assume "isAmplifyError (h ! a) \<and> fromStderr d (message (h ! a)) = None"
  then show "getAmplifyError d h a dt = (Return a, h)"
    by (simp add: getAmplifyError_isAmplifyError)
next
  assume A: "(\<forall>m e. fromStderr d m = Some e \<longrightarrow> isAmplifyError e)
        \<and> getAmplifyError d h a dt = (Return r, h')
        \<and> fromStderr d (message (h' ! r)) = None"
  then have run: "getAmplifyError d h a dt = (Return r, h')" by simp
  have "isAmplifyError (h' ! r)"
  proof (cases "fromStderr d (message (h ! a))")
    case (Some e)
    with A have "isAmplifyError e" by blast
    with run getAmplifyError_fromStderr[OF Some, of dt] show ?thesis by auto
  next
    case None
    show ?thesis
    proof (cases "isAmplifyError (h ! a)")
      case True
      with run getAmplifyError_isAmplifyError[OF None True, of dt] show ?thesis by auto
    next
      case False
      consider (none) "getCDKError h a = (Return None, h)"
        | (some) e where "getCDKError h a = (Return (Some (length h)), h @ [e])"
            "isAmplifyError e"
        | (throw) e where "getCDKError h a = (Throw (length h), h @ [e])"
        using getCDKError_cases[of h a] by blast
      then show ?thesis
      proof cases
        case some
        with run getAmplifyError_cdk_return[OF None False some(1), where dt = dt]
        show ?thesis by auto
      next
        case throw
        with run getAmplifyError_cdk_throw[OF None False throw, where dt = dt]
        show ?thesis by auto
      next
        case none
        show ?thesis
        proof (cases "string_includes (message (h ! a)) (js ''does not support module.register()'')")
          case True
          with run getAmplifyError_node_version[OF None False none True, where dt = dt]
          show ?thesis by (auto simp: AmplifyUserError_def isAmplifyError_def)
        next
          case nr: False
          show ?thesis
          proof (cases "string_includes (message (h ! a)) (js ''Failed to bundle asset'')")
            case True
            with run getAmplifyError_bundle[OF None False none nr True, where dt = dt]
            show ?thesis by (auto simp: AmplifyUserError_def isAmplifyError_def)
          next
            case nb: False
            note scan = getAmplifyError_scan[OF None \<open>\<not> isAmplifyError (h ! a)\<close> none nr nb,
                where dt = dt]
            show ?thesis
            proof (cases "find (\<lambda>k. regex_test (errorRegex k) (stripANSI d (message (h ! a))))
                            (getKnownErrors d)")
              case None
              with scan run show ?thesis
                by (auto simp: AmplifyFault_def isAmplifyError_def)
            next
              case (Some k)
              obtain hm rm ue h2
                where ec: "extract_context h a (stripANSI d (message (h ! a))) k = (hm, rm, ue, h2)"
                by (cases "extract_context h a (stripANSI d (message (h ! a))) k") auto
              from scan run Some ec
              have "r = length h2" "h' = h2 @ [known_error_result k hm rm ue]"
                by auto
              then show ?thesis
                by (simp add: known_error_result_fields)
            qed
          qed
        qed
      qed
    qed
  qed
  with A show "getAmplifyError d h' r dt = (Return r, h')"
    by (simp add: getAmplifyError_isAmplifyError)
qed

theorem amplify_error_passthrough_witness:
  "isAmplifyError ([AmplifyFault (js ''StackFault'') (js ''the stack is gone'') None None] ! 0)
   \<and> fromStderr sample
        (message ([AmplifyFault (js ''StackFault'') (js ''the stack is gone'') None None] ! 0))
       = None
   \<and> getAmplifyError sample
        [AmplifyFault (js ''StackFault'') (js ''the stack is gone'') None None] 0 None =
       (Return 0, [AmplifyFault (js ''StackFault'') (js ''the stack is gone'') None None])
   \<and> getAmplifyError sample [plain_error (js ''Error'') (js ''Failed to bundle asset /tmp/fn'')]
         0 None =
       (Return 1,
        [plain_error (js ''Error'') (js ''Failed to bundle asset /tmp/fn''),
         AmplifyUserError (js ''CDKAssetBundleError'')
           (js ''CDK failed to bundle your function code'')
           (Some (js ''Check the error messages above for mode details'')) None])
   \<and> getAmplifyError sample
        [plain_error (js ''Error'') (js ''Failed to bundle asset /tmp/fn''),
         AmplifyUserError (js ''CDKAssetBundleError'')
           (js ''CDK failed to bundle your function code'')
           (Some (js ''Check the error messages above for mode details'')) None] 1 None =
       (Return 1,
        [plain_error (js ''Error'') (js ''Failed to bundle asset /tmp/fn''),
         AmplifyUserError (js ''CDKAssetBundleError'')
           (js ''CDK failed to bundle your function code'')
           (Some (js ''Check the error messages above for mode details'')) None])"
proof -
  let ?f = "AmplifyFault (js ''StackFault'') (js ''the stack is gone'') None None"
  let ?h = "[plain_error (js ''Error'') (js ''Failed to bundle asset /tmp/fn'')]"
  let ?r = "AmplifyUserError (js ''CDKAssetBundleError'')
           (js ''CDK failed to bundle your function code'')
           (Some (js ''Check the error messages above for mode details'')) None"
  have f: "isAmplifyError ([?f] ! 0)" "fromStderr sample (message ([?f] ! 0)) = None"
    by (simp_all add: AmplifyFault_def isAmplifyError_def sample_simps)
  have first: "getAmplifyError sample [?f] 0 None = (Return 0, [?f])"
    using amplify_error_passthrough[of "[?f]" 0 sample None] f by simp
  have 1: "fromStderr sample (message (?h ! 0)) = None"
    by (simp add: sample_simps)
  have 2: "\<not> isAmplifyError (?h ! 0)"
    by (simp add: plain_error_simps)
  have 4: "\<not> string_includes (message (?h ! 0)) (js ''does not support module.register()'')"
    by (simp add: plain_error_simps string_includes_def js_def)
  have 5: "string_includes (message (?h ! 0)) (js ''Failed to bundle asset'')"
    by (simp add: plain_error_simps string_includes_def js_def)
  have run: "getAmplifyError sample ?h 0 None = (Return 1, ?h @ [?r])"
    using getAmplifyError_bundle[OF 1 2 getCDKError_plain 4 5, of None] by simp
  have again: "getAmplifyError sample (?h @ [?r]) 1 None = (Return 1, ?h @ [?r])"
    using amplify_error_passthrough[of "?h" 0 sample None 1 "?h @ [?r]"] run
    by (simp add: sample_simps)
  from f first run again show ?thesis by simp
qed

text \<open>
  C7. The branch of the unsupported node version: for every error whose message contains
  \<open>does not support module.register()\<close> and that is neither a structured error already nor
  a typed error of the toolkit, the result is a user error of the kind
  \<open>NodeVersionNotSupportedError\<close> with the message \<open>Unable to deploy due to unsupported node
  version\<close>; its resolution is the instruction for CI/CD when the deployment type is
  \<open>branch\<close> and the instruction to upgrade node otherwise, and its cause is the input.

  This fails for an error with a native error name: an error named \<open>TypeError\<close> with such
  a message is no structured error and carries no mark of the toolkit, and the branch of
  the native names comes first.
\<close>

theorem native_name_precedes_node_version:
  "string_includes
      (message (plain_error (js ''TypeError'')
                  (js ''This version of Node.js does not support module.register().'')))
      (js ''does not support module.register()'')
   \<and> \<not> isAmplifyError (plain_error (js ''TypeError'')
                  (js ''This version of Node.js does not support module.register().''))
   \<and> \<not> isToolkitError (plain_error (js ''TypeError'')
                  (js ''This version of Node.js does not support module.register().''))
   \<and> getAmplifyError sample
        [plain_error (js ''TypeError'')
           (js ''This version of Node.js does not support module.register().'')] 0 None =
       (Throw 1,
        [plain_error (js ''TypeError'')
           (js ''This version of Node.js does not support module.register().''),
         AmplifyUserError (js ''SyntaxError'')
           (js ''Unable to build the Amplify backend definition.'')
           (Some (js ''Check the Caused by error and fix any issues in your backend code''))
           (Some 0)])"
proof -
  let ?e = "plain_error (js ''TypeError'')
              (js ''This version of Node.js does not support module.register().'')"
  have inc: "string_includes (message ?e) (js ''does not support module.register()'')"
    by (simp add: plain_error_simps string_includes_def js_def)
  have probes: "\<not> isAmplifyError ?e" "\<not> isToolkitError ?e"
    by (simp_all add: isAmplifyError_def isToolkitError_def plain_error_def)
  have "getCDKError [?e] 0 =
     (Throw 1, [?e] @ [AmplifyUserError (js ''SyntaxError'')
        (js ''Unable to build the Amplify backend definition.'')
        (Some (js ''Check the Caused by error and fix any issues in your backend code''))
        (Some 0)])"
    by (simp add: getCDKError_def plain_error_simps new_def)
  from getAmplifyError_cdk_throw[OF _ _ this, of sample None] inc probes
  show ?thesis
    by (simp add: sample_simps plain_error_simps)
qed

text \<open>
  C7, amended. The same, for every error whose message contains
  \<open>does not support module.register()\<close> and carries no serialized error, that is no
  structured error already, on which none of the probes for an authentication, assembly or
  context provider error of the toolkit answers, and whose name is none of \<open>TypeError\<close>,
  \<open>TransformError\<close>, \<open>ReferenceError\<close> and \<open>SyntaxError\<close>.
\<close>

theorem node_version_branch:
  assumes "fromStderr d (message (h ! a)) = None"
    and "\<not> isAmplifyError (h ! a)"
    and "\<not> isAuthenticationError (h ! a)"
    and "\<not> isAssemblyError (h ! a)"
    and "\<not> isContextProviderError (h ! a)"
    and "name (h ! a) \<notin> {js ''TypeError'', js ''TransformError'', js ''ReferenceError'',
           js ''SyntaxError''}"
    and "string_includes (message (h ! a)) (js ''does not support module.register()'')"
  shows "getAmplifyError d h a dt =
     (Return (length h),
      h @ [\<lparr>name = js ''NodeVersionNotSupportedError'',
             message = js ''Unable to deploy due to unsupported node version'',
             cause = Some a,
             amplify_classification = Some ERROR,
             resolution = Some
               (if dt = Some (js ''branch'')
                then js ''Upgrade the node version in your CI/CD environment. If you are using Amplify Hosting for your backend builds, you can add `nvm install 18.x` or `nvm install 20.x` in your `amplify.yml` before the `pipeline-deploy` command''
                else js ''Upgrade to node `^18.19.0`, `^20.6.0,` or `>=22`''),
             toolkit_error = False, authentication_error = False,
             assembly_error = False, context_provider_error = False\<rparr>])"
proof -
  have cdk: "getCDKError h a = (Return None, h)"
    using assms(3-6) by (auto simp: getCDKError_def)
  have cat: "js ''Upgrade the node version in your CI/CD environment. ''
      @ js ''If you are using Amplify Hosting for your backend builds, you can add `nvm install 18.x` or `nvm install 20.x` in your `amplify.yml` before the `pipeline-deploy` command''
     = js ''Upgrade the node version in your CI/CD environment. If you are using Amplify Hosting for your backend builds, you can add `nvm install 18.x` or `nvm install 20.x` in your `amplify.yml` before the `pipeline-deploy` command''"
    by (simp add: js_def)
  show ?thesis
    using getAmplifyError_node_version[OF assms(1,2) cdk assms(7), of dt]
    by (simp add: AmplifyUserError_def cat)
qed

theorem node_version_branch_witness:
  "fromStderr sample
      (message ([plain_error (js ''Error'')
                   (js ''Node.js v18.0.0 does not support module.register()'')] ! 0)) = None
   \<and> \<not> isAmplifyError ([plain_error (js ''Error'')
                   (js ''Node.js v18.0.0 does not support module.register()'')] ! 0)
   \<and> \<not> isAuthenticationError ([plain_error (js ''Error'')
                   (js ''Node.js v18.0.0 does not support module.register()'')] ! 0)
   \<and> \<not> isAssemblyError ([plain_error (js ''Error'')
                   (js ''Node.js v18.0.0 does not support module.register()'')] ! 0)
   \<and> \<not> isContextProviderError ([plain_error (js ''Error'')
                   (js ''Node.js v18.0.0 does not support module.register()'')] ! 0)
   \<and> name ([plain_error (js ''Error'')
               (js ''Node.js v18.0.0 does not support module.register()'')] ! 0)
       \<notin> {js ''TypeError'', js ''TransformError'', js ''ReferenceError'', js ''SyntaxError''}
   \<and> string_includes
        (message ([plain_error (js ''Error'')
                     (js ''Node.js v18.0.0 does not support module.register()'')] ! 0))
        (js ''does not support module.register()'')
   \<and> getAmplifyError sample
        [plain_error (js ''Error'') (js ''Node.js v18.0.0 does not support module.register()'')]
        0 (Some (js ''branch'')) =
       (Return 1,
        [plain_error (js ''Error'') (js ''Node.js v18.0.0 does not support module.register()''),
         \<lparr>name = js ''NodeVersionNotSupportedError'',
          message = js ''Unable to deploy due to unsupported node version'',
          cause = Some 0,
          amplify_classification = Some ERROR,
          resolution = Some (js ''Upgrade the node version in your CI/CD environment. If you are using Amplify Hosting for your backend builds, you can add `nvm install 18.x` or `nvm install 20.x` in your `amplify.yml` before the `pipeline-deploy` command''),
          toolkit_error = False, authentication_error = False,
          assembly_error = False, context_provider_error = False\<rparr>])
   \<and> resolution (snd (getAmplifyError sample
        [plain_error (js ''Error'') (js ''Node.js v18.0.0 does not support module.register()'')]
        0 (Some (js ''sandbox''))) ! 1)
       = Some (js ''Upgrade to node `^18.19.0`, `^20.6.0,` or `>=22`'')"
proof -
  let ?h = "[plain_error (js ''Error'') (js ''Node.js v18.0.0 does not support module.register()'')]"
  have 1: "fromStderr sample (message (?h ! 0)) = None"
    by (simp add: sample_simps)
  have 2: "\<not> isAmplifyError (?h ! 0)" "\<not> isAuthenticationError (?h ! 0)"
    "\<not> isAssemblyError (?h ! 0)" "\<not> isContextProviderError (?h ! 0)"
    by (simp_all add: plain_error_simps)
  have 3: "name (?h ! 0)
       \<notin> {js ''TypeError'', js ''TransformError'', js ''ReferenceError'', js ''SyntaxError''}"
    by (simp add: plain_error_simps) (simp add: js_def)
  have 4: "string_includes (message (?h ! 0)) (js ''does not support module.register()'')"
    by (simp add: plain_error_simps string_includes_def js_def)
  have ne: "js ''sandbox'' \<noteq> js ''branch''"
    by (simp add: js_def)
  from node_version_branch[OF 1 2 3 4, of "Some (js ''branch'')"]
    node_version_branch[OF 1 2 3 4, of "Some (js ''sandbox'')"] 1 2 3 4 ne
  show ?thesis by simp
qed

text \<open>
  C8. The cause is kept when no named group is used: when the pattern of the first
  matching rule has no named group, or none of the names of its groups is a place holder
  of the rule's templates, the returned error has the caller's error as its cause; for the
  rule \<open>Access Denied\<close> and the message \<open>Access Denied: xyz\<close> the result has the kind
  \<open>AccessDeniedError\<close> and its cause is the input.

  Read for an input that reaches the scan of the table, as the rule that the scan finds.
  The cause is the address of the caller's error, the same object; when the pattern has
  no group at all, as in the example, that object is as it was before the call.
\<close>

theorem cause_preserved:
  assumes "fromStderr d (message (h ! a)) = None"
    and "\<not> isAmplifyError (h ! a)"
    and "getCDKError h a = (Return None, h)"
    and "\<not> string_includes (message (h ! a)) (js ''does not support module.register()'')"
    and "\<not> string_includes (message (h ! a)) (js ''Failed to bundle asset'')"
    and "find (\<lambda>k. regex_test (errorRegex k) (stripANSI d (message (h ! a)))) (getKnownErrors d)
           = Some k"
    and "group_names (errorRegex k) = []
      \<or> (\<forall>n \<in> set (group_names (errorRegex k)).
            \<not> string_includes (humanReadableErrorMessage k) (place_holder n)
          \<and> \<not> string_includes (resolutionMessage k) (place_holder n))"
    and "getAmplifyError d h a dt = (out, h')"
  shows "\<exists>r. out = Return r \<and> name (h' ! r) = kind_name (errorName k) \<and> cause (h' ! r) = Some a
     \<and> (group_count (errorRegex k) = 0 \<longrightarrow> a < length h \<longrightarrow> h' ! a = h ! a)"
proof -
  obtain hm rm ue h2
    where ec: "extract_context h a (stripANSI d (message (h ! a))) k = (hm, rm, ue, h2)"
    by (cases "extract_context h a (stripANSI d (message (h ! a))) k") auto
  from getAmplifyError_scan[OF assms(1-5), where dt = dt] assms(6,8) ec
  have out: "out = Return (length h2)" and h': "h' = h2 @ [known_error_result k hm rm ue]"
    by simp_all
  have "ue = Some a"
    by (rule extract_context_cause[OF ec assms(7)])
  moreover have "group_count (errorRegex k) = 0 \<Longrightarrow> h2 = h"
    by (rule extract_context_no_groups[OF ec])
  ultimately show ?thesis
    using out h' by (auto simp: known_error_result_fields nth_append)
qed

theorem cause_preserved_witness:
  "fromStderr sample (message ([plain_error (js ''Error'') (js ''Access Denied: xyz'')] ! 0)) = None
   \<and> \<not> isAmplifyError ([plain_error (js ''Error'') (js ''Access Denied: xyz'')] ! 0)
   \<and> getCDKError [plain_error (js ''Error'') (js ''Access Denied: xyz'')] 0
       = (Return None, [plain_error (js ''Error'') (js ''Access Denied: xyz'')])
   \<and> \<not> string_includes (message ([plain_error (js ''Error'') (js ''Access Denied: xyz'')] ! 0))
         (js ''does not support module.register()'')
   \<and> \<not> string_includes (message ([plain_error (js ''Error'') (js ''Access Denied: xyz'')] ! 0))
         (js ''Failed to bundle asset'')
   \<and> find (\<lambda>k. regex_test (errorRegex k)
               (stripANSI sample
                  (message ([plain_error (js ''Error'') (js ''Access Denied: xyz'')] ! 0))))
        (getKnownErrors sample) = Some (getKnownErrors sample ! 2)
   \<and> group_names (errorRegex (getKnownErrors sample ! 2)) = []
   \<and> (\<exists>r. fst (getAmplifyError sample [plain_error (js ''Error'') (js ''Access Denied: xyz'')]
                  0 None) = Return r
          \<and> name (snd (getAmplifyError sample
                  [plain_error (js ''Error'') (js ''Access Denied: xyz'')] 0 None) ! r)
              = js ''AccessDeniedError''
          \<and> cause (snd (getAmplifyError sample
                  [plain_error (js ''Error'') (js ''Access Denied: xyz'')] 0 None) ! r)
              = Some 0)
   \<and> snd (getAmplifyError sample [plain_error (js ''Error'') (js ''Access Denied: xyz'')] 0 None)
        ! 0 = plain_error (js ''Error'') (js ''Access Denied: xyz'')"
proof -
  let ?m = "js ''Access Denied: xyz''"
  let ?h = "[plain_error (js ''Error'') ?m]"
  let ?k = "getKnownErrors sample ! 2"
  have 1: "fromStderr sample (message (?h ! 0)) = None"
    by (simp add: sample_simps)
  have 2: "\<not> isAmplifyError (?h ! 0)"
    by (simp add: plain_error_simps)
  have 4: "\<not> string_includes (message (?h ! 0)) (js ''does not support module.register()'')"
    "\<not> string_includes (message (?h ! 0)) (js ''Failed to bundle asset'')"
    by (simp_all add: plain_error_simps access_denied_text)
  have 6: "find (\<lambda>k. regex_test (errorRegex k) (stripANSI sample (message (?h ! 0))))
        (getKnownErrors sample) = Some ?k"
    by (simp add: sample_simps plain_error_simps access_denied_text access_denied_scan)
  have 7: "group_names (errorRegex ?k) = []
      \<or> (\<forall>n \<in> set (group_names (errorRegex ?k)).
            \<not> string_includes (humanReadableErrorMessage ?k) (place_holder n)
          \<and> \<not> string_includes (resolutionMessage ?k) (place_holder n))"
    by (simp add: rule_2)
  have 8: "getAmplifyError sample ?h 0 None
     = (fst (getAmplifyError sample ?h 0 None), snd (getAmplifyError sample ?h 0 None))"
    by simp
  from cause_preserved[OF 1 2 getCDKError_plain 4 6 7 8]
  have "(\<exists>r. fst (getAmplifyError sample ?h 0 None) = Return r
          \<and> name (snd (getAmplifyError sample ?h 0 None) ! r) = js ''AccessDeniedError''
          \<and> cause (snd (getAmplifyError sample ?h 0 None) ! r) = Some 0)
      \<and> snd (getAmplifyError sample ?h 0 None) ! 0 = plain_error (js ''Error'') ?m"
    by (auto simp: rule_2)
  with 1 2 getCDKError_plain 4 6 show ?thesis
    by (simp add: rule_2)
qed

text \<open>
  C9. Deliberate discard of the cause for the bundler failure: for every error whose
  message contains \<open>Failed to bundle asset\<close> and that hit no earlier branch (no serialized
  error in the message, not a structured error, no outcome of \<open>getCDKError\<close>, no
  \<open>does not support module.register()\<close> in the message), the result is a new user error of
  the kind \<open>CDKAssetBundleError\<close> with a fixed message and resolution and no cause: the
  caller's error is dropped.
\<close>

theorem bundle_failure_drops_cause:
  assumes "fromStderr d (message (h ! a)) = None"
    and "\<not> isAmplifyError (h ! a)"
    and "getCDKError h a = (Return None, h)"
    and "\<not> string_includes (message (h ! a)) (js ''does not support module.register()'')"
    and "string_includes (message (h ! a)) (js ''Failed to bundle asset'')"
  shows "getAmplifyError d h a dt =
     (Return (length h),
      h @ [\<lparr>name = js ''CDKAssetBundleError'',
             message = js ''CDK failed to bundle your function code'',
             cause = None,
             amplify_classification = Some ERROR,
             resolution = Some (js ''Check the error messages above for mode details''),
             toolkit_error = False, authentication_error = False,
             assembly_error = False, context_provider_error = False\<rparr>])"
  using getAmplifyError_bundle[OF assms] by (simp add: AmplifyUserError_def)

theorem bundle_failure_drops_cause_witness:
  "fromStderr sample
      (message ([plain_error (js ''Error'') (js ''Failed to bundle asset /tmp/fn'')] ! 0)) = None
   \<and> \<not> isAmplifyError ([plain_error (js ''Error'') (js ''Failed to bundle asset /tmp/fn'')] ! 0)
   \<and> getCDKError [plain_error (js ''Error'') (js ''Failed to bundle asset /tmp/fn'')] 0
       = (Return None, [plain_error (js ''Error'') (js ''Failed to bundle asset /tmp/fn'')])
   \<and> \<not> string_includes
         (message ([plain_error (js ''Error'') (js ''Failed to bundle asset /tmp/fn'')] ! 0))
         (js ''does not support module.register()'')
   \<and> string_includes
         (message ([plain_error (js ''Error'') (js ''Failed to bundle asset /tmp/fn'')] ! 0))
         (js ''Failed to bundle asset'')
   \<and> getAmplifyError sample [plain_error (js ''Error'') (js ''Failed to bundle asset /tmp/fn'')]
         0 None =
     (Return 1,
      [plain_error (js ''Error'') (js ''Failed to bundle asset /tmp/fn''),
       \<lparr>name = js ''CDKAssetBundleError'',
        message = js ''CDK failed to bundle your function code'',
        cause = None,
        amplify_classification = Some ERROR,
        resolution = Some (js ''Check the error messages above for mode details''),
        toolkit_error = False, authentication_error = False,
        assembly_error = False, context_provider_error = False\<rparr>])"
proof -
  let ?h = "[plain_error (js ''Error'') (js ''Failed to bundle asset /tmp/fn'')]"
  have 1: "fromStderr sample (message (?h ! 0)) = None"
    by (simp add: sample_simps)
  have 2: "\<not> isAmplifyError (?h ! 0)"
    by (simp add: plain_error_simps)
  have 3: "getCDKError ?h 0 = (Return None, ?h)"
    by (rule getCDKError_plain)
  have 4: "\<not> string_includes (message (?h ! 0)) (js ''does not support module.register()'')"
    by (simp add: plain_error_simps string_includes_def js_def)
  have 5: "string_includes (message (?h ! 0)) (js ''Failed to bundle asset'')"
    by (simp add: plain_error_simps string_includes_def js_def)
  from bundle_failure_drops_cause[OF 1 2 3 4 5, of None] 1 2 3 4 5
  show ?thesis by simp
qed

text \<open>
  C10. The ANSI codes are stripped for the scan of the table only: the regular
  expressions of the table are tested on the stripped message (so \<open>Access Denied\<close> between
  colour codes still meets the rule of \<open>AccessDeniedError\<close>), while the branches before the
  scan (the search for a serialized error, the test for \<open>does not support
  module.register()\<close> and the test for \<open>Failed to bundle asset\<close>) test the raw message, so
  that a phrase that colour codes interrupt does not trigger them.

  In two parts. When a branch before the scan applies to the raw message, the outcome is
  the same whatever \<open>stripANSI\<close> does. And for an error that the search for a serialized
  error, the check for a structured error and \<open>getCDKError\<close> pass on, the kind of the
  result is decided by the two tests on the raw message and, when both fail, by the scan
  on the stripped message.
\<close>

theorem raw_message_in_special_cases:
  "((fromStderr d (message (h ! a)) \<noteq> None \<or> isAmplifyError (h ! a)
       \<or> getCDKError h a \<noteq> (Return None, h)
       \<or> string_includes (message (h ! a)) (js ''does not support module.register()'')
       \<or> string_includes (message (h ! a)) (js ''Failed to bundle asset''))
      \<longrightarrow> getAmplifyError (d\<lparr>stripANSI := s\<rparr>) h a dt = getAmplifyError d h a dt)
   \<and> (fromStderr d (message (h ! a)) = None \<and> \<not> isAmplifyError (h ! a)
        \<and> getCDKError h a = (Return None, h) \<and> getAmplifyError d h a dt = (out, h')
      \<longrightarrow> (\<exists>r. out = Return r \<and> name (h' ! r) =
           (if string_includes (message (h ! a)) (js ''does not support module.register()'')
            then js ''NodeVersionNotSupportedError''
            else if string_includes (message (h ! a)) (js ''Failed to bundle asset'')
            then js ''CDKAssetBundleError''
            else case find (\<lambda>k. regex_test (errorRegex k) (stripANSI d (message (h ! a))))
                        (getKnownErrors d) of
                   Some k \<Rightarrow> kind_name (errorName k)
                 | None \<Rightarrow> js ''unknown'')))"
proof (intro conjI impI)
  let ?d = "d\<lparr>stripANSI := s\<rparr>"
  assume early: "fromStderr d (message (h ! a)) \<noteq> None \<or> isAmplifyError (h ! a)
       \<or> getCDKError h a \<noteq> (Return None, h)
       \<or> string_includes (message (h ! a)) (js ''does not support module.register()'')
       \<or> string_includes (message (h ! a)) (js ''Failed to bundle asset'')"
  show "getAmplifyError ?d h a dt = getAmplifyError d h a dt"
  proof (cases "fromStderr d (message (h ! a))")
    case (Some e)
    then have "fromStderr ?d (message (h ! a)) = Some e" by simp
    with Some show ?thesis
      by (simp add: getAmplifyError_fromStderr)
  next
    case None
    then have fs: "fromStderr ?d (message (h ! a)) = None" by simp
    show ?thesis
    proof (cases "isAmplifyError (h ! a)")
      case True
      with None fs show ?thesis
        by (simp add: getAmplifyError_isAmplifyError)
    next
      case False
      consider (none) "getCDKError h a = (Return None, h)"
        | (some) e where "getCDKError h a = (Return (Some (length h)), h @ [e])"
        | (throw) e where "getCDKError h a = (Throw (length h), h @ [e])"
        using getCDKError_cases[of h a] by blast
      then show ?thesis
      proof cases
        case some
        show ?thesis
          by (simp add: getAmplifyError_cdk_return[OF None False some]
                getAmplifyError_cdk_return[OF fs False some])
      next
        case throw
        show ?thesis
          by (simp add: getAmplifyError_cdk_throw[OF None False throw]
                getAmplifyError_cdk_throw[OF fs False throw])
      next
        case none
        show ?thesis
        proof (cases "string_includes (message (h ! a)) (js ''does not support module.register()'')")
          case True
          show ?thesis
            by (simp add: getAmplifyError_node_version[OF None False none True]
                  getAmplifyError_node_version[OF fs False none True])
        next
          case nr: False
          with early None False none
          have b: "string_includes (message (h ! a)) (js ''Failed to bundle asset'')"
            by simp
          show ?thesis
            by (simp add: getAmplifyError_bundle[OF None False none nr b]
                  getAmplifyError_bundle[OF fs False none nr b])
        qed
      qed
    qed
  qed
next
  assume A: "fromStderr d (message (h ! a)) = None \<and> \<not> isAmplifyError (h ! a)
        \<and> getCDKError h a = (Return None, h) \<and> getAmplifyError d h a dt = (out, h')"
  then have fs: "fromStderr d (message (h ! a)) = None" and na: "\<not> isAmplifyError (h ! a)"
    and none: "getCDKError h a = (Return None, h)"
    and run: "getAmplifyError d h a dt = (out, h')"
    by simp_all
  let ?goal = "\<exists>r. out = Return r \<and> name (h' ! r) =
           (if string_includes (message (h ! a)) (js ''does not support module.register()'')
            then js ''NodeVersionNotSupportedError''
            else if string_includes (message (h ! a)) (js ''Failed to bundle asset'')
            then js ''CDKAssetBundleError''
            else case find (\<lambda>k. regex_test (errorRegex k) (stripANSI d (message (h ! a))))
                        (getKnownErrors d) of
                   Some k \<Rightarrow> kind_name (errorName k)
                 | None \<Rightarrow> js ''unknown'')"
  show ?goal
  proof (cases "string_includes (message (h ! a)) (js ''does not support module.register()'')")
    case True
    from run getAmplifyError_node_version[OF fs na none True, where dt = dt] True
    show ?thesis by (auto simp: AmplifyUserError_def)
  next
    case nr: False
    show ?thesis
    proof (cases "string_includes (message (h ! a)) (js ''Failed to bundle asset'')")
      case True
      from run getAmplifyError_bundle[OF fs na none nr True, where dt = dt] True nr
      show ?thesis by (auto simp: AmplifyUserError_def)
    next
      case False
      note scan = getAmplifyError_scan[OF fs na none nr False, where dt = dt]
      show ?thesis
      proof (cases "find (\<lambda>k. regex_test (errorRegex k) (stripANSI d (message (h ! a))))
                      (getKnownErrors d)")
        case None
        with scan run nr False show ?thesis
          by (auto simp: AmplifyFault_def)
      next
        case (Some k)
        obtain hm rm ue h2
          where ec: "extract_context h a (stripANSI d (message (h ! a))) k = (hm, rm, ue, h2)"
          by (cases "extract_context h a (stripANSI d (message (h ! a))) k") auto
        from scan run Some ec
        have "out = Return (length h2)" "h' = h2 @ [known_error_result k hm rm ue]"
          by simp_all
        with Some nr False show ?thesis
          by (simp add: known_error_result_fields)
      qed
    qed
  qed
qed

theorem raw_message_in_special_cases_witness:
  "fromStderr sample
      (message ([plain_error (js ''Error'')
                   coloured_access_denied] ! 0)) = None
   \<and> \<not> isAmplifyError ([plain_error (js ''Error'')
                   coloured_access_denied] ! 0)
   \<and> getCDKError [plain_error (js ''Error'')
                   coloured_access_denied] 0
       = (Return None, [plain_error (js ''Error'')
                   coloured_access_denied])
   \<and> getAmplifyError (sample\<lparr>stripANSI := (\<lambda>m. [])\<rparr>)
         [plain_error (js ''Error'') (js ''Failed to bundle asset /tmp/fn'')] 0 None
       = getAmplifyError sample
           [plain_error (js ''Error'') (js ''Failed to bundle asset /tmp/fn'')] 0 None
   \<and> (\<exists>r. fst (getAmplifyError sample
               [plain_error (js ''Error'')
                  coloured_access_denied] 0 None) = Return r
          \<and> name (snd (getAmplifyError sample
               [plain_error (js ''Error'')
                  coloured_access_denied] 0 None) ! r)
              = js ''AccessDeniedError'')
   \<and> string_includes
        (stripANSI sample
           interrupted_bundle_phrase)
        (js ''Failed to bundle asset'')
   \<and> (\<exists>r. fst (getAmplifyError sample
               [plain_error (js ''Error'')
                  interrupted_bundle_phrase]
               0 None) = Return r
          \<and> name (snd (getAmplifyError sample
               [plain_error (js ''Error'')
                  interrupted_bundle_phrase]
               0 None) ! r)
              \<noteq> js ''CDKAssetBundleError'')"
proof -
  let ?c = "coloured_access_denied"
  let ?hc = "[plain_error (js ''Error'') ?c]"
  let ?i = "interrupted_bundle_phrase"
  let ?hi = "[plain_error (js ''Error'') ?i]"
  have c1: "fromStderr sample (message (?hc ! 0)) = None"
    and i1: "fromStderr sample (message (?hi ! 0)) = None"
    by (simp_all add: sample_simps)
  have c2: "\<not> isAmplifyError (?hc ! 0)" and i2: "\<not> isAmplifyError (?hi ! 0)"
    by (simp_all add: plain_error_simps)
  have "string_includes
      (message ([plain_error (js ''Error'') (js ''Failed to bundle asset /tmp/fn'')] ! 0))
      (js ''Failed to bundle asset'')"
    by (simp add: plain_error_simps string_includes_def js_def)
  with raw_message_in_special_cases[of sample
      "[plain_error (js ''Error'') (js ''Failed to bundle asset /tmp/fn'')]" 0 "\<lambda>m. []" None]
  have early: "getAmplifyError (sample\<lparr>stripANSI := (\<lambda>m. [])\<rparr>)
         [plain_error (js ''Error'') (js ''Failed to bundle asset /tmp/fn'')] 0 None
       = getAmplifyError sample
           [plain_error (js ''Error'') (js ''Failed to bundle asset /tmp/fn'')] 0 None"
    by blast
  from raw_message_in_special_cases[where d = sample and h = ?hc and a = 0 and dt = None
      and out = "fst (getAmplifyError sample ?hc 0 None)"
      and h' = "snd (getAmplifyError sample ?hc 0 None)"]
    c1 c2 getCDKError_plain[of ?c]
  have coloured: "\<exists>r. fst (getAmplifyError sample ?hc 0 None) = Return r
      \<and> name (snd (getAmplifyError sample ?hc 0 None) ! r) = js ''AccessDeniedError''"
    by (auto simp: plain_error_simps sample_simps coloured_text coloured_scan rule_2)
  have stripped: "string_includes (stripANSI sample ?i) (js ''Failed to bundle asset'')"
    by (simp add: sample_simps interrupted_text)
  have other: "(case find (\<lambda>k. regex_test (errorRegex k) (js ''Failed to bundle asset''))
                  (getKnownErrors sample) of
             Some k \<Rightarrow> kind_name (errorName k)
           | None \<Rightarrow> js ''unknown'') \<noteq> js ''CDKAssetBundleError''"
  proof (cases "find (\<lambda>k. regex_test (errorRegex k) (js ''Failed to bundle asset''))
                  (getKnownErrors sample)")
    case None
    then show ?thesis by (simp add: js_def)
  next
    case (Some k)
    then have "k \<in> set (getKnownErrors sample)"
      by (auto simp: find_Some_iff)
    with no_bundle_rule[of sample] have "errorName k \<noteq> CDKAssetBundleError"
      by (simp add: list_all_iff)
    with Some show ?thesis
      using kind_name_bundle[of "errorName k"] by auto
  qed
  from raw_message_in_special_cases[where d = sample and h = ?hi and a = 0 and dt = None
      and out = "fst (getAmplifyError sample ?hi 0 None)"
      and h' = "snd (getAmplifyError sample ?hi 0 None)"]
    i1 i2 getCDKError_plain[of ?i]
  have interrupted: "\<exists>r. fst (getAmplifyError sample ?hi 0 None) = Return r
      \<and> name (snd (getAmplifyError sample ?hi 0 None) ! r) \<noteq> js ''CDKAssetBundleError''"
    using other by (auto simp: plain_error_simps sample_simps interrupted_text)
  from c1 c2 getCDKError_plain early coloured stripped interrupted show ?thesis
    by simp
qed

end
